theory Spec2Isabelle
  imports Complex_Main "HOL-Library.AList"
begin

section \<open>Common conventions\<close>

text \<open>
  The simulation modules are JavaScript classes that mutate shared objects. Each method is
  embedded as a function from the store before the call to the store after it, paired with
  how the call completed: it returned a value, or it threw. A thrown exception leaves the
  mutations made so far in place, exactly as in the source, where every entry point is an
  event listener or a timer callback and the page keeps running after an uncaught error.

  Numbers are exact reals. A property that is absent (\<open>undefined\<close>) or has become \<open>NaN\<close> is
  \<open>None\<close>: both propagate through \<open>*=\<close> as \<open>NaN\<close> and make every \<open><\<close> comparison false.
  DOM styling, custom events and timers are rendering effects outside the model; a timer
  callback appears as an operation that the scheduler may fire at any moment.
\<close>

datatype error = TypeError | RangeError

datatype 'a completion = Returned 'a | Threw error

type_synonym node_id = string
type_synonym element = nat

text \<open>Statements run in order; the first one that throws ends the sequence.\<close>

fun seq :: "('s \<Rightarrow> 's \<times> unit completion) list \<Rightarrow> 's \<Rightarrow> 's \<times> unit completion" where
  "seq [] w = (w, Returned ())"
| "seq (a # as) w =
     (case a w of
        (w', Returned _) \<Rightarrow> seq as w'
      | (w', Threw e) \<Rightarrow> (w', Threw e))"

section \<open>Quantum state registry, entanglement manager, decoherence monitor\<close>

datatype spin = Up | Down

text \<open>
  The Bell tag is a free string in the source. \<open>applyBellState\<close> switches on the four
  known tags and has no default branch, and the style table of \<open>renderEntanglementPath\<close>
  has entries for the same four; \<open>Unrecognised\<close> stands for any other string that names no
  entry of that table.
\<close>

datatype bell = PhiPlus | PhiMinus | PsiPlus | PsiMinus | Unrecognised

text \<open>
  \<open>generateQuantumState\<close> creates \<open>{spin, phase, superposition}\<close>; \<open>amplitude\<close> and
  \<open>observationCount\<close> are read by other methods but exist on a state object only once
  somebody has assigned them.
\<close>

record qstate =
  spin :: spin
  phase :: real
  superposition :: bool
  amplitude :: "real option"
  observationCount :: "nat option"

text \<open>
  \<open>registerQuantumNode\<close> stores \<open>{element, state, amplitude: 1.0, phase: 0}\<close>: the last two
  fields sit on the node, not on its state.
\<close>

record qnode =
  element :: element
  state :: qstate
  node_amplitude :: real
  node_phase :: real

text \<open>
  One store for the three cooperating objects: \<open>QuantumNeuralInterface\<close>
  (\<open>quantumNodes\<close>, a \<open>Map\<close> in insertion order, and \<open>entanglements\<close>, keyed by element),
  \<open>QuantumEntanglement\<close> (\<open>entangledPairs\<close>, \<open>bellStates\<close>) and \<open>QuantumDecoherence\<close>
  (\<open>measurementBackaction\<close>, \<open>interactionHistory\<close>). \<open>draws\<close> counts the calls of
  \<open>Math.random()\<close> made so far; the n-th call returns \<open>rng n\<close> for a stream \<open>rng\<close> that
  stands for the seed.
\<close>

record world =
  quantumNodes :: "(node_id \<times> qnode) list"
  entanglements :: "element \<rightharpoonup> element"
  entangledPairs :: "node_id \<rightharpoonup> node_id"
  bellStates :: "element \<rightharpoonup> bell"
  measurementBackaction :: real
  interactionHistory :: "element \<rightharpoonup> nat"
  draws :: nat

record qni_options =
  coherenceTime :: real
  observationThreshold :: real

definition default_options :: qni_options where
  "default_options = \<lparr>coherenceTime = 5000, observationThreshold = 0.85\<rparr>"

definition getNode :: "world \<Rightarrow> node_id \<Rightarrow> qnode option" where
  "getNode w nid = map_of (quantumNodes w) nid"

definition setNode :: "node_id \<Rightarrow> qnode \<Rightarrow> world \<Rightarrow> world" where
  "setNode nid n w = w\<lparr>quantumNodes := AList.update nid n (quantumNodes w)\<rparr>"

text \<open>An assignment \<open>node.state.f = v\<close> through a looked-up node; \<open>node\<close> undefined throws.\<close>

definition assignState :: "node_id \<Rightarrow> (qstate \<Rightarrow> qstate) \<Rightarrow> world \<Rightarrow> world \<times> unit completion" where
  "assignState nid f w =
     (case getNode w nid of
        None \<Rightarrow> (w, Threw TypeError)
      | Some n \<Rightarrow> (setNode nid (n\<lparr>state := f (state n)\<rparr>) w, Returned ()))"

definition mathRandom :: "(nat \<Rightarrow> real) \<Rightarrow> world \<Rightarrow> real \<times> world" where
  "mathRandom rng w = (rng (draws w), w\<lparr>draws := Suc (draws w)\<rparr>)"

definition generateQuantumState :: "(nat \<Rightarrow> real) \<Rightarrow> world \<Rightarrow> qstate \<times> world" where
  "generateQuantumState rng w =
     (let (r1, w1) = mathRandom rng w;
          (r2, w2) = mathRandom rng w1
      in (\<lparr>spin = (if r1 > 0.5 then Up else Down), phase = r2 * pi * 2,
           superposition = True, amplitude = None, observationCount = None\<rparr>, w2))"

text \<open>
  \<open>registerQuantumNode(node)\<close>: \<open>nid\<close> is \<open>node.dataset.qNode || crypto.randomUUID()\<close>,
  resolved by the caller. \<open>Map.set\<close> on a key already present replaces the value in place.
\<close>

definition registerQuantumNode :: "(nat \<Rightarrow> real) \<Rightarrow> world \<Rightarrow> element \<Rightarrow> node_id \<Rightarrow> world" where
  "registerQuantumNode rng w el nid =
     (let (initialState, w1) = generateQuantumState rng w
      in setNode nid \<lparr>element = el, state = initialState, node_amplitude = 1.0, node_phase = 0\<rparr> w1)"

text \<open>
  \<open>[...quantumNodes.entries()].find(([_, data]) => data.element === el)?.[0]\<close>: the id of
  the first registered node, in insertion order, that carries the element.
\<close>

definition idOfElement :: "(node_id \<times> qnode) list \<Rightarrow> element \<Rightarrow> node_id option" where
  "idOfElement nodes el = map_option fst (find (\<lambda>(k, data). element data = el) nodes)"

text \<open>
  \<open>entangleNodes(nodeId1, nodeId2)\<close> of the interface: a fresh state for the first node, a
  copy with the phase shifted by \<open>\<pi>\<close> for the second, and the element-level link that
  \<open>collapseWaveFunction\<close> follows.
\<close>

definition entangleNodes :: "(nat \<Rightarrow> real) \<Rightarrow> world \<Rightarrow> node_id \<Rightarrow> node_id \<Rightarrow> world \<times> bool completion" where
  "entangleNodes rng w nodeId1 nodeId2 =
     (case (getNode w nodeId1, getNode w nodeId2) of
        (Some node1, Some node2) \<Rightarrow>
          (let (entangledState, w1) = generateQuantumState rng w;
               w2 = setNode nodeId1 (node1\<lparr>state := entangledState\<rparr>) w1;
               w3 = setNode nodeId2 (node2\<lparr>state := entangledState\<lparr>phase := phase entangledState + pi\<rparr>\<rparr>) w2;
               w4 = w3\<lparr>entanglements := ((entanglements w3)(element node1 \<mapsto> element node2))
                                                             (element node2 \<mapsto> element node1)\<rparr>
           in (w4, Returned True))
      | _ \<Rightarrow> (w, Returned False))"

text \<open>
  \<open>collapseWaveFunction(nodeId)\<close>. The method calls itself on the entangled partner, so the
  model carries the number of stack frames still available: a JavaScript engine throws
  \<open>RangeError\<close> when the call stack is exhausted. An id is truthy unless it is the empty
  string.
\<close>

fun collapseWaveFunction :: "nat \<Rightarrow> (nat \<Rightarrow> real) \<Rightarrow> world \<Rightarrow> node_id \<Rightarrow> world \<times> unit completion" where
  "collapseWaveFunction 0 rng w nodeId = (w, Threw RangeError)"
| "collapseWaveFunction (Suc depth) rng w nodeId =
     (case getNode w nodeId of
        None \<Rightarrow> (w, Returned ())
      | Some node \<Rightarrow>
          (let (r, w1) = mathRandom rng w;
               w2 = setNode nodeId
                      (node\<lparr>state := (state node)\<lparr>superposition := False,
                                                   spin := (if r > 0.5 then Up else Down)\<rparr>\<rparr>) w1
           in (case entanglements w2 (element node) of
                 None \<Rightarrow> (w2, Returned ())
               | Some entangledNode \<Rightarrow>
                   (case idOfElement (quantumNodes w2) entangledNode of
                      None \<Rightarrow> (w2, Returned ())
                    | Some entangledId \<Rightarrow>
                        if entangledId = [] then (w2, Returned ())
                        else collapseWaveFunction depth rng w2 entangledId))))"

text \<open>
  \<open>scheduleDecoherence(nodeId)\<close> of the interface keeps its timers in a \<open>WeakMap\<close> and uses
  the id, a string, as the key. \<open>WeakMap.prototype.has\<close> answers \<open>false\<close> for a key that is
  not an object; \<open>WeakMap.prototype.set\<close> throws \<open>TypeError\<close> for one. The timer itself is
  created before \<open>set\<close> is entered.
\<close>

definition scheduleDecoherence :: "world \<Rightarrow> node_id \<Rightarrow> world \<times> unit completion" where
  "scheduleDecoherence w nodeId = (w, Threw TypeError)"

text \<open>The callback of that timer.\<close>

definition decoherenceTimeout :: "nat \<Rightarrow> (nat \<Rightarrow> real) \<Rightarrow> world \<Rightarrow> node_id \<Rightarrow> world \<times> unit completion" where
  "decoherenceTimeout depth rng w nodeId =
     (case getNode w nodeId of
        None \<Rightarrow> (w, Returned ())
      | Some node \<Rightarrow>
          if superposition (state node) then collapseWaveFunction depth rng w nodeId
          else (w, Returned ()))"

text \<open>\<open>x *= 0.9\<close> and \<open>x < t\<close> on a value that may be absent or \<open>NaN\<close>.\<close>

definition scaled :: "real option \<Rightarrow> real \<Rightarrow> real option" where
  "scaled x c = map_option (\<lambda>v. v * c) x"

definition below :: "real option \<Rightarrow> real \<Rightarrow> bool" where
  "below x t = (case x of None \<Rightarrow> False | Some v \<Rightarrow> v < t)"

text \<open>\<open>handleObservation(nodeId)\<close>, the \<open>observe\<close> operation (listener of \<open>mouseenter\<close>).\<close>

definition handleObservation :: "qni_options \<Rightarrow> nat \<Rightarrow> (nat \<Rightarrow> real) \<Rightarrow> world \<Rightarrow> node_id \<Rightarrow> world \<times> unit completion" where
  "handleObservation opts depth rng w nodeId =
     (case getNode w nodeId of
        None \<Rightarrow> (w, Returned ())
      | Some node \<Rightarrow>
          if \<not> superposition (state node) then (w, Returned ())
          else
            (let a = scaled (amplitude (state node)) 0.9;
                 w1 = setNode nodeId (node\<lparr>state := (state node)\<lparr>amplitude := a\<rparr>\<rparr>) w
             in seq [\<lambda>w. if below a (observationThreshold opts)
                           then collapseWaveFunction depth rng w nodeId
                           else (w, Returned ()),
                     \<lambda>w. scheduleDecoherence w nodeId] w1))"

text \<open>
  \<open>handleMeasurement(nodeId)\<close>, the \<open>measure\<close> operation (listener of \<open>click\<close>): after the
  collapse it reads \<open>node.element\<close> to dispatch the collapse event, with no check that the
  node exists.
\<close>

definition handleMeasurement :: "nat \<Rightarrow> (nat \<Rightarrow> real) \<Rightarrow> world \<Rightarrow> node_id \<Rightarrow> world \<times> unit completion" where
  "handleMeasurement depth rng w nodeId =
     seq [\<lambda>w. collapseWaveFunction depth rng w nodeId,
          \<lambda>w. (case getNode w nodeId of
                  None \<Rightarrow> (w, Threw TypeError)
                | Some node \<Rightarrow> (w, Returned ()))] w"

text \<open>
  \<open>applyBellState(nodeId1, nodeId2, bellState)\<close> of the entanglement manager, assignment by
  assignment: the two ids may name the same node, and a missing node throws at the first
  assignment that goes through it.
\<close>

definition applyBellState :: "world \<Rightarrow> node_id \<Rightarrow> node_id \<Rightarrow> bell \<Rightarrow> world \<times> unit completion" where
  "applyBellState w nodeId1 nodeId2 bellState =
     seq ((case bellState of
             PhiPlus \<Rightarrow>
               [assignState nodeId1 (spin_update (\<lambda>_. Up)), assignState nodeId2 (spin_update (\<lambda>_. Up)),
                assignState nodeId1 (phase_update (\<lambda>_. 0)), assignState nodeId2 (phase_update (\<lambda>_. 0))]
           | PhiMinus \<Rightarrow>
               [assignState nodeId1 (spin_update (\<lambda>_. Up)), assignState nodeId2 (spin_update (\<lambda>_. Up)),
                assignState nodeId1 (phase_update (\<lambda>_. 0)), assignState nodeId2 (phase_update (\<lambda>_. pi))]
           | PsiPlus \<Rightarrow>
               [assignState nodeId1 (spin_update (\<lambda>_. Up)), assignState nodeId2 (spin_update (\<lambda>_. Down)),
                assignState nodeId1 (phase_update (\<lambda>_. 0)), assignState nodeId2 (phase_update (\<lambda>_. 0))]
           | PsiMinus \<Rightarrow>
               [assignState nodeId1 (spin_update (\<lambda>_. Up)), assignState nodeId2 (spin_update (\<lambda>_. Down)),
                assignState nodeId1 (phase_update (\<lambda>_. 0)), assignState nodeId2 (phase_update (\<lambda>_. pi))]
           | Unrecognised \<Rightarrow> [])
          @ [assignState nodeId1 (superposition_update (\<lambda>_. True)),
             assignState nodeId2 (superposition_update (\<lambda>_. True)),
             assignState nodeId1 (amplitude_update (\<lambda>_. Some 1.0)),
             assignState nodeId2 (amplitude_update (\<lambda>_. Some 1.0))]) w"

text \<open>
  \<open>createVisualEntanglement\<close> appends the connection element and draws it once before it
  returns. The drawing, \<open>renderEntanglementPath\<close>, looks the tag up in its style table and
  reads \<open>style.wave\<close>: for a tag without an entry \<open>style\<close> is \<open>undefined\<close> and the read throws.
  Nothing else of the drawing reaches the store.
\<close>

definition createVisualEntanglement :: "bell \<Rightarrow> world \<Rightarrow> world \<times> unit completion" where
  "createVisualEntanglement bellState w =
     (case bellState of
        Unrecognised \<Rightarrow> (w, Threw TypeError)
      | _ \<Rightarrow> (w, Returned ()))"

text \<open>
  \<open>createEntanglement(nodeId1, nodeId2, bellState)\<close>. The only check is that both nodes are
  registered. The connection pool is rendering state.
\<close>

definition createEntanglement :: "world \<Rightarrow> node_id \<Rightarrow> node_id \<Rightarrow> bell \<Rightarrow> world \<times> bool completion" where
  "createEntanglement w nodeId1 nodeId2 bellState =
     (case (getNode w nodeId1, getNode w nodeId2) of
        (Some node1, Some node2) \<Rightarrow>
          (let w1 = w\<lparr>bellStates := ((bellStates w)(element node1 \<mapsto> bellState))
                                                    (element node2 \<mapsto> bellState)\<rparr>;
               w2 = w1\<lparr>entangledPairs := ((entangledPairs w1)(nodeId1 \<mapsto> nodeId2))
                                                                (nodeId2 \<mapsto> nodeId1)\<rparr>
           in (case seq [\<lambda>w. applyBellState w nodeId1 nodeId2 bellState,
                         createVisualEntanglement bellState] w2 of
                 (w3, Returned _) \<Rightarrow> (w3, Returned True)
               | (w3, Threw e) \<Rightarrow> (w3, Threw e)))
      | _ \<Rightarrow> (w, Returned False))"

text \<open>
  \<open>verifyBellState(nodeId)\<close>: \<open>entangledPairs.get\<close> of an unpaired id is \<open>undefined\<close>, and
  \<open>quantumNodes.get(undefined)\<close> is \<open>undefined\<close> as well.
\<close>

definition verifyBellState :: "world \<Rightarrow> node_id \<Rightarrow> bell option" where
  "verifyBellState w nodeId =
     (case getNode w nodeId of
        None \<Rightarrow> None
      | Some node \<Rightarrow>
          (case Option.bind (entangledPairs w nodeId) (getNode w) of
             None \<Rightarrow> None
           | Some pairedNode \<Rightarrow>
               if spin (state node) = spin (state pairedNode)
               then (if phase (state node) = phase (state pairedNode) then Some PhiPlus else Some PhiMinus)
               else (if phase (state node) = phase (state pairedNode) then Some PsiPlus else Some PsiMinus)))"

text \<open>
  \<open>breakEntanglement(nodeId)\<close>: removes both directions of the pair and the two Bell tags;
  \<open>quantumNodes.get(id).element\<close> throws when the id is not registered.
\<close>

definition breakEntanglement :: "world \<Rightarrow> node_id \<Rightarrow> world \<times> bool completion" where
  "breakEntanglement w nodeId =
     (case entangledPairs w nodeId of
        None \<Rightarrow> (w, Returned False)
      | Some pairedId \<Rightarrow>
          if pairedId = [] then (w, Returned False)
          else
            (let w1 = w\<lparr>entangledPairs := ((entangledPairs w)(nodeId := None))(pairedId := None)\<rparr>
             in (case getNode w1 nodeId of
                   None \<Rightarrow> (w1, Threw TypeError)
                 | Some node \<Rightarrow>
                     (let w2 = w1\<lparr>bellStates := (bellStates w1)(element node := None)\<rparr>
                      in (case getNode w2 pairedId of
                            None \<Rightarrow> (w2, Threw TypeError)
                          | Some pairedNode \<Rightarrow>
                              (w2\<lparr>bellStates := (bellStates w2)(element pairedNode := None)\<rparr>,
                               Returned True))))))"

text \<open>
  \<open>applyDecoherence(nodeId)\<close> of the decoherence monitor, the callback of its own timer:
  with probability \<open>measurementBackaction\<close> a collapse, otherwise phase damping, and then
  the interaction count of the element goes up by one. Rescheduling sets a timer keyed by
  the element and changes no state of the model.
\<close>

definition applyDecoherence :: "nat \<Rightarrow> (nat \<Rightarrow> real) \<Rightarrow> world \<Rightarrow> node_id \<Rightarrow> world \<times> unit completion" where
  "applyDecoherence depth rng w nodeId =
     (case getNode w nodeId of
        None \<Rightarrow> (w, Returned ())
      | Some node \<Rightarrow>
          (let (r, w1) = mathRandom rng w
           in seq [\<lambda>w. if r < measurementBackaction w
                         then collapseWaveFunction depth rng w nodeId
                         else
                           (let (r2, w2) = mathRandom rng w;
                                a = scaled (amplitude (state node)) 0.9;
                                w3 = setNode nodeId
                                       (node\<lparr>state := (state node)\<lparr>phase := phase (state node) + (r2 - 0.5) * pi / 4,
                                                                    amplitude := a\<rparr>\<rparr>) w2
                            in if below a 0.3 then collapseWaveFunction depth rng w3 nodeId
                               else (w3, Returned ())),
                   \<lambda>w. (w\<lparr>interactionHistory := (interactionHistory w)
                             (element node \<mapsto> (case interactionHistory w (element node) of
                                                   None \<Rightarrow> 1 | Some c \<Rightarrow> Suc c))\<rparr>, Returned ())] w1))"

text \<open>
  The operations the host can trigger on the registry, one constructor per entry point:
  \<open>observe\<close>, \<open>measure\<close>, \<open>collapse\<close>, the two decoherence callbacks, \<open>break\<close>,
  \<open>entangle\<close> with a Bell tag, and the interface's own \<open>entangleNodes\<close>; \<open>rng\<close> is the seed
  and \<open>depth\<close> the stack available to each handler. An exception ends the handler that
  raised it and nothing else, so the next operation starts from the store the previous one
  left behind.
\<close>

datatype operation =
    Observe node_id
  | Measure node_id
  | Collapse node_id
  | Decohere node_id
  | Timeout node_id
  | Break node_id
  | Entangle node_id node_id bell
  | Link node_id node_id

fun perform :: "qni_options \<Rightarrow> nat \<Rightarrow> (nat \<Rightarrow> real) \<Rightarrow> world \<Rightarrow> operation \<Rightarrow> world" where
  "perform opts depth rng w (Observe nid) = fst (handleObservation opts depth rng w nid)"
| "perform opts depth rng w (Measure nid) = fst (handleMeasurement depth rng w nid)"
| "perform opts depth rng w (Collapse nid) = fst (collapseWaveFunction depth rng w nid)"
| "perform opts depth rng w (Decohere nid) = fst (applyDecoherence depth rng w nid)"
| "perform opts depth rng w (Timeout nid) = fst (decoherenceTimeout depth rng w nid)"
| "perform opts depth rng w (Break nid) = fst (breakEntanglement w nid)"
| "perform opts depth rng w (Entangle nid1 nid2 bellState) = fst (createEntanglement w nid1 nid2 bellState)"
| "perform opts depth rng w (Link nid1 nid2) = fst (entangleNodes rng w nid1 nid2)"

definition run :: "qni_options \<Rightarrow> nat \<Rightarrow> (nat \<Rightarrow> real) \<Rightarrow> world \<Rightarrow> operation list \<Rightarrow> world" where
  "run opts depth rng w ops = foldl (perform opts depth rng) w ops"

text \<open>An entity is in \<open>Collapsed\<close> mode when it is registered and its superposition flag is off.\<close>

definition isCollapsed :: "world \<Rightarrow> node_id \<Rightarrow> bool" where
  "isCollapsed w nid = (case getNode w nid of None \<Rightarrow> False | Some n \<Rightarrow> \<not> superposition (state n))"

text \<open>Whether an operation is an entangling call that names the entity as a member.\<close>

fun entanglesEntity :: "node_id \<Rightarrow> operation \<Rightarrow> bool" where
  "entanglesEntity nid (Entangle nid1 nid2 bellState) = (nid = nid1 \<or> nid = nid2)"
| "entanglesEntity nid (Link nid1 nid2) = (nid = nid1 \<or> nid = nid2)"
| "entanglesEntity nid _ = False"

text \<open>
  The truth table of the specification, read as (same spin, same phase), for the four
  Bell tags it lists.
\<close>

fun truthTable :: "bell \<Rightarrow> (bool \<times> bool) option" where
  "truthTable PhiPlus = Some (True, True)"
| "truthTable PhiMinus = Some (True, False)"
| "truthTable PsiPlus = Some (False, True)"
| "truthTable PsiMinus = Some (False, False)"
| "truthTable Unrecognised = None"

text \<open>\<open>entangle(a, b, tag)\<close> followed by \<open>measure(m)\<close>: the store afterwards.\<close>

definition measureAfterEntangle :: "nat \<Rightarrow> (nat \<Rightarrow> real) \<Rightarrow> world \<Rightarrow> node_id \<Rightarrow> node_id \<Rightarrow> bell \<Rightarrow> node_id \<Rightarrow> world" where
  "measureAfterEntangle depth rng w a b tag m =
     fst (handleMeasurement depth rng (fst (createEntanglement w a b tag)) m)"

text \<open>
  What collapses can do to a node, at most: redraw the spin and switch superposition off.
\<close>

definition collapsedFrom :: "qnode \<Rightarrow> qnode \<Rightarrow> bool" where
  "collapsedFrom n n' \<longleftrightarrow>
     element n' = element n \<and> phase (state n') = phase (state n)
     \<and> amplitude (state n') = amplitude (state n)
     \<and> observationCount (state n') = observationCount (state n)
     \<and> (superposition (state n') \<longrightarrow> superposition (state n))"

text \<open>
  How many observations a state records; a reader such as \<open>calculateCoherenceTime\<close> takes
  an absent count for zero.
\<close>

definition observations :: "qstate \<Rightarrow> nat" where
  "observations st = (case observationCount st of None \<Rightarrow> 0 | Some n \<Rightarrow> n)"

section \<open>Numbers of the neural engine\<close>

text \<open>
  Membrane potentials, weights, rates and spike times are JavaScript numbers: doubles,
  with the two infinities and \<open>NaN\<close>. A finite double is kept as the real it denotes and a
  finite result is not rounded to the nearest double; what is kept is the part of the
  arithmetic that the clamp of the weights depends on: a result at or beyond the overflow
  threshold of the doubles becomes an infinity, \<open>\<infinity> - \<infinity>\<close> and \<open>\<infinity> \<sqdot> 0\<close> are \<open>NaN\<close>, every
  operation on \<open>NaN\<close> gives \<open>NaN\<close>, and every comparison with \<open>NaN\<close> is false. The two
  zeros are one value.
\<close>

datatype number = Num real | PosInfinity | NegInfinity | NaN

definition overflowThreshold :: real where
  "overflowThreshold = 2 ^ 1024 - 2 ^ 970"

definition toNumber :: "real \<Rightarrow> number" where
  "toNumber r = (if overflowThreshold \<le> r then PosInfinity
                 else if r \<le> - overflowThreshold then NegInfinity else Num r)"

fun numNeg :: "number \<Rightarrow> number" where
  "numNeg (Num a) = Num (- a)"
| "numNeg PosInfinity = NegInfinity"
| "numNeg NegInfinity = PosInfinity"
| "numNeg NaN = NaN"

fun numAdd :: "number \<Rightarrow> number \<Rightarrow> number" where
  "numAdd (Num a) (Num b) = toNumber (a + b)"
| "numAdd (Num a) PosInfinity = PosInfinity"
| "numAdd (Num a) NegInfinity = NegInfinity"
| "numAdd PosInfinity (Num b) = PosInfinity"
| "numAdd NegInfinity (Num b) = NegInfinity"
| "numAdd PosInfinity PosInfinity = PosInfinity"
| "numAdd NegInfinity NegInfinity = NegInfinity"
| "numAdd PosInfinity NegInfinity = NaN"
| "numAdd NegInfinity PosInfinity = NaN"
| "numAdd NaN b = NaN"
| "numAdd a NaN = NaN"

definition numSub :: "number \<Rightarrow> number \<Rightarrow> number" where
  "numSub a b = numAdd a (numNeg b)"

text \<open>An infinity times a finite number: \<open>NaN\<close> at zero, else an infinity of the product's sign.\<close>

definition infinityTimes :: "bool \<Rightarrow> real \<Rightarrow> number" where
  "infinityTimes positive b =
     (if b = 0 then NaN else if (0 < b) = positive then PosInfinity else NegInfinity)"

fun numMul :: "number \<Rightarrow> number \<Rightarrow> number" where
  "numMul (Num a) (Num b) = toNumber (a * b)"
| "numMul (Num a) PosInfinity = infinityTimes True a"
| "numMul (Num a) NegInfinity = infinityTimes False a"
| "numMul PosInfinity (Num b) = infinityTimes True b"
| "numMul NegInfinity (Num b) = infinityTimes False b"
| "numMul PosInfinity PosInfinity = PosInfinity"
| "numMul NegInfinity NegInfinity = PosInfinity"
| "numMul PosInfinity NegInfinity = NegInfinity"
| "numMul NegInfinity PosInfinity = NegInfinity"
| "numMul NaN b = NaN"
| "numMul a NaN = NaN"

text \<open>Division by a finite positive constant, the only division of the rules.\<close>

fun numDiv :: "number \<Rightarrow> real \<Rightarrow> number" where
  "numDiv (Num a) c = toNumber (a / c)"
| "numDiv PosInfinity c = PosInfinity"
| "numDiv NegInfinity c = NegInfinity"
| "numDiv NaN c = NaN"

fun numLess :: "number \<Rightarrow> number \<Rightarrow> bool" where
  "numLess (Num a) (Num b) = (a < b)"
| "numLess (Num a) PosInfinity = True"
| "numLess (Num a) NegInfinity = False"
| "numLess PosInfinity b = False"
| "numLess NegInfinity (Num b) = True"
| "numLess NegInfinity PosInfinity = True"
| "numLess NegInfinity NegInfinity = False"
| "numLess NegInfinity NaN = False"
| "numLess NaN b = False"
| "numLess (Num a) NaN = False"

text \<open>\<open>Math.min\<close> and \<open>Math.max\<close> of two arguments: \<open>NaN\<close> as soon as one of them is.\<close>

definition mathMin :: "number \<Rightarrow> number \<Rightarrow> number" where
  "mathMin a b = (if a = NaN \<or> b = NaN then NaN else if numLess b a then b else a)"

definition mathMax :: "number \<Rightarrow> number \<Rightarrow> number" where
  "mathMax a b = (if a = NaN \<or> b = NaN then NaN else if numLess a b then b else a)"

fun mathAbs :: "number \<Rightarrow> number" where
  "mathAbs (Num a) = Num \<bar>a\<bar>"
| "mathAbs PosInfinity = PosInfinity"
| "mathAbs NegInfinity = PosInfinity"
| "mathAbs NaN = NaN"

fun mathExp :: "number \<Rightarrow> number" where
  "mathExp (Num a) = toNumber (exp a)"
| "mathExp PosInfinity = PosInfinity"
| "mathExp NegInfinity = Num 0"
| "mathExp NaN = NaN"

text \<open>\<open>x || 0\<close> for a number or \<open>undefined\<close>: \<open>undefined\<close>, \<open>NaN\<close> and zero are falsy.\<close>

fun orZero :: "number option \<Rightarrow> number" where
  "orZero None = Num 0"
| "orZero (Some NaN) = Num 0"
| "orZero (Some v) = v"

section \<open>Neural simulation engine and synaptic plasticity\<close>

datatype neurotransmitter = Glutamate | GABA | Dopamine

fun strength :: "neurotransmitter \<Rightarrow> number" where
  "strength Glutamate = Num 1.2"
| "strength GABA = Num (- 0.8)"
| "strength Dopamine = Num 0.5"

text \<open>\<open>synapses\<close> is a \<open>Set\<close> of post-synaptic ids: no duplicates, iterated in insertion order.\<close>

record neuron =
  membranePotential :: number
  firingThreshold :: number
  lastFired :: number
  synapses :: "node_id list"
  neurotransmitter :: neurotransmitter

record activity =
  recent :: number
  average :: number
  trace :: "number list"

text \<open>
  \<open>neuralNetwork\<close> is a \<open>Map\<close> from id to neuron. \<open>hebbianWeights\<close> maps the element of the
  pre-synaptic node to a weight table keyed by the post-synaptic neuron object; a neuron
  object is created once per id and never replaced, so the table is keyed by that id here.
  \<open>neuronActivity\<close> belongs to the plasticity module. Its \<open>synapticTagging\<close> is a \<open>WeakMap\<close>
  that is only ever given string keys: \<open>get\<close> finds nothing, \<open>set\<close> throws, and the class has
  no \<open>forEach\<close>, so the table never holds an entry and needs no field.
\<close>

record engine =
  neuralNetwork :: "(node_id \<times> neuron) list"
  hebbianWeights :: "element \<rightharpoonup> (node_id \<rightharpoonup> number)"
  neuronActivity :: "element \<rightharpoonup> activity"

record engine_options =
  learningRate :: number
  plasticityThreshold :: number
  maxSynapses :: nat
  decayRate :: number

record plasticity_options =
  bcmThreshold :: number
  homeostasisRate :: number
  dopamineModulation :: number

text \<open>\<open>types[Math.floor(Math.random() * types.length)]\<close> for a draw \<open>r\<close> in \<open>[0, 1)\<close>.\<close>

definition randomNeurotransmitter :: "real \<Rightarrow> neurotransmitter" where
  "randomNeurotransmitter r = (if r * 3 < 1 then Glutamate else if r * 3 < 2 then GABA else Dopamine)"

definition getNeuron :: "engine \<Rightarrow> node_id \<Rightarrow> neuron option" where
  "getNeuron eng nid = map_of (neuralNetwork eng) nid"

definition setNeuron :: "node_id \<Rightarrow> neuron \<Rightarrow> engine \<Rightarrow> engine" where
  "setNeuron nid n eng = eng\<lparr>neuralNetwork := AList.update nid n (neuralNetwork eng)\<rparr>"

text \<open>
  \<open>registerNeuron(nodeId)\<close>; \<open>r1\<close> and \<open>r2\<close> are the two values \<open>Math.random()\<close> returns
  during the call. A second id on the same element replaces that element's weight table.
\<close>

definition registerNeuron :: "real \<Rightarrow> real \<Rightarrow> world \<Rightarrow> engine \<Rightarrow> node_id \<Rightarrow> engine" where
  "registerNeuron r1 r2 w eng nodeId =
     (case getNode w nodeId of
        None \<Rightarrow> eng
      | Some node \<Rightarrow>
          if getNeuron eng nodeId \<noteq> None then eng
          else
            (let n = \<lparr>membranePotential = Num 0, firingThreshold = Num (0.8 + r1 * 0.4), lastFired = Num 0,
                      synapses = [],
                      neurotransmitter = randomNeurotransmitter r2\<rparr>
             in (setNeuron nodeId n eng)\<lparr>hebbianWeights := (hebbianWeights eng)(element node \<mapsto> Map.empty)\<rparr>))"

text \<open>\<open>weightMap.get(this.neuralNetwork.get(id))\<close>: nothing is stored under \<open>undefined\<close>.\<close>

definition weightOf :: "engine \<Rightarrow> (node_id \<rightharpoonup> number) \<Rightarrow> node_id \<Rightarrow> number option" where
  "weightOf eng weightMap nid = (case getNeuron eng nid of None \<Rightarrow> None | Some _ \<Rightarrow> weightMap nid)"

text \<open>\<open>weightMap.get(postNeuron) || 0\<close>.\<close>

definition currentWeightOf :: "engine \<Rightarrow> (node_id \<rightharpoonup> number) \<Rightarrow> node_id \<Rightarrow> number" where
  "currentWeightOf eng weightMap nid = orZero (weightOf eng weightMap nid)"

text \<open>\<open>Math.max(0, Math.min(1, x))\<close>: \<open>NaN\<close> passes through both calls.\<close>

definition clamp01 :: "number \<Rightarrow> number" where
  "clamp01 x = mathMax (Num 0) (mathMin (Num 1) x)"

text \<open>
  \<open>pruneWeakestSynapse(nodeId)\<close>. The search starts from \<open>minWeight = 1\<close> and compares with
  \<open><\<close>. After deleting the weakest id the method calls \<open>this.removeSynapticConnection\<close>, which
  no class of the repository defines: calling \<open>undefined\<close> throws \<open>TypeError\<close>.
\<close>

definition pruneWeakestSynapse :: "world \<Rightarrow> engine \<Rightarrow> node_id \<Rightarrow> engine \<times> unit completion" where
  "pruneWeakestSynapse w eng nodeId =
     (case getNeuron eng nodeId of
        None \<Rightarrow> (eng, Returned ())
      | Some neuron \<Rightarrow>
          (case getNode w nodeId of
             None \<Rightarrow> (eng, Threw TypeError)
           | Some node \<Rightarrow>
               (case hebbianWeights eng (element node) of
                  None \<Rightarrow> if synapses neuron = [] then (eng, Returned ()) else (eng, Threw TypeError)
                | Some weightMap \<Rightarrow>
                    (let (weakestId, minWeight) =
                           foldl (\<lambda>(weakestId, minWeight) synapseId.
                                    case weightOf eng weightMap synapseId of
                                      None \<Rightarrow> (weakestId, minWeight)
                                    | Some weight \<Rightarrow>
                                        if numLess weight minWeight then (Some synapseId, weight)
                                        else (weakestId, minWeight))
                                 (None, Num 1) (synapses neuron)
                     in (case weakestId of
                           None \<Rightarrow> (eng, Returned ())
                         | Some weakest \<Rightarrow>
                             if weakest = [] then (eng, Returned ())
                             else (setNeuron nodeId (neuron\<lparr>synapses := removeAll weakest (synapses neuron)\<rparr>) eng,
                                   Threw TypeError))))))"

text \<open>
  \<open>formSynapse(preId, postId, initialWeight)\<close>. \<open>createSynapticConnection\<close> reads the
  elements of both nodes and then only touches the page. (In the file as it stands, the
  test \<open>if (!document.body.contains(preElement) {\<close> inside that helper lacks its closing
  parenthesis; the methods are embedded as they are written.)
\<close>

definition formSynapse :: "engine_options \<Rightarrow> world \<Rightarrow> engine \<Rightarrow> node_id \<Rightarrow> node_id \<Rightarrow> number \<Rightarrow> engine \<times> bool completion" where
  "formSynapse opts w eng preId postId initialWeight =
     (if preId = postId then (eng, Returned False)
      else
        (case (getNeuron eng preId, getNeuron eng postId) of
           (Some preNeuron, Some postNeuron) \<Rightarrow>
             if postId \<in> set (synapses preNeuron) then (eng, Returned True)
             else
               (case (if length (synapses preNeuron) \<ge> maxSynapses opts
                      then pruneWeakestSynapse w eng preId else (eng, Returned ())) of
                  (eng1, Threw e) \<Rightarrow> (eng1, Threw e)
                | (eng1, Returned _) \<Rightarrow>
                    (let preNeuron1 = (case getNeuron eng1 preId of Some n \<Rightarrow> n | None \<Rightarrow> preNeuron);
                         eng2 = setNeuron preId (preNeuron1\<lparr>synapses := synapses preNeuron1 @ [postId]\<rparr>) eng1
                     in (case getNode w preId of
                           None \<Rightarrow> (eng2, Threw TypeError)
                         | Some preNode \<Rightarrow>
                             (case hebbianWeights eng2 (element preNode) of
                                None \<Rightarrow> (eng2, Threw TypeError)
                              | Some weightMap \<Rightarrow>
                                  (let eng3 = eng2\<lparr>hebbianWeights := (hebbianWeights eng2)
                                                   (element preNode \<mapsto> weightMap(postId \<mapsto> initialWeight))\<rparr>
                                   in (case getNode w postId of
                                         None \<Rightarrow> (eng3, Threw TypeError)
                                       | Some _ \<Rightarrow> (eng3, Returned True)))))))
         | _ \<Rightarrow> (eng, Returned False)))"

text \<open>The body shared by the rules once the weight table is at hand: clamp and store.\<close>

definition storeWeight :: "element \<Rightarrow> (node_id \<rightharpoonup> number) \<Rightarrow> node_id \<Rightarrow> number \<Rightarrow> engine \<Rightarrow> engine" where
  "storeWeight el weightMap postId newWeight eng =
     eng\<lparr>hebbianWeights := (hebbianWeights eng)(el \<mapsto> weightMap(postId \<mapsto> newWeight))\<rparr>"

definition applyHebbianRule :: "engine_options \<Rightarrow> world \<Rightarrow> engine \<Rightarrow> node_id \<Rightarrow> node_id \<Rightarrow> engine \<times> bool completion" where
  "applyHebbianRule opts w eng preId postId =
     (case (getNeuron eng preId, getNeuron eng postId) of
        (Some preNeuron, Some postNeuron) \<Rightarrow>
          (case getNode w preId of
             None \<Rightarrow> (eng, Threw TypeError)
           | Some preNode \<Rightarrow>
               (case hebbianWeights eng (element preNode) of
                  None \<Rightarrow> (eng, Threw TypeError)
                | Some weightMap \<Rightarrow>
                    (let currentWeight = currentWeightOf eng weightMap postId;
                         activityProduct = numMul (mathMin (membranePotential preNeuron) (Num 1))
                                                  (mathMin (membranePotential postNeuron) (Num 1));
                         weightChange = numMul (learningRate opts) activityProduct;
                         newWeight = clamp01 (numAdd currentWeight weightChange)
                     in (storeWeight (element preNode) weightMap postId newWeight eng, Returned True))))
      | _ \<Rightarrow> (eng, Returned False))"

text \<open>
  \<open>applyBCMRule\<close> reads \<open>quantumNodes.get(postId).element\<close> before it tests anything. A
  weight change above 0.1 in magnitude calls \<open>tagSynapse\<close>, whose \<open>synapticTagging.set\<close>
  with a string key throws after the weight has been stored.
\<close>

definition applyBCMRule :: "engine_options \<Rightarrow> plasticity_options \<Rightarrow> world \<Rightarrow> engine \<Rightarrow> node_id \<Rightarrow> node_id \<Rightarrow> engine \<times> bool completion" where
  "applyBCMRule opts popts w eng preId postId =
     (case getNode w postId of
        None \<Rightarrow> (eng, Threw TypeError)
      | Some postNode \<Rightarrow>
          (case (getNeuron eng preId, getNeuron eng postId) of
             (Some preNeuron, Some postNeuron) \<Rightarrow>
               (case neuronActivity eng (element postNode) of
                  None \<Rightarrow> (eng, Returned False)
                | Some act \<Rightarrow>
                    (case getNode w preId of
                       None \<Rightarrow> (eng, Threw TypeError)
                     | Some preNode \<Rightarrow>
                         (case hebbianWeights eng (element preNode) of
                            None \<Rightarrow> (eng, Threw TypeError)
                          | Some weightMap \<Rightarrow>
                              (let currentWeight = currentWeightOf eng weightMap postId;
                                   theta = numMul (average act) (bcmThreshold popts);
                                   postActivity = mathMin (membranePotential postNeuron) (Num 1);
                                   preActivity = mathMin (membranePotential preNeuron) (Num 1);
                                   weightChange = numMul (numMul (numMul (learningRate opts) postActivity)
                                                                 (numSub postActivity theta))
                                                         preActivity;
                                   newWeight = clamp01 (numAdd currentWeight weightChange);
                                   eng1 = storeWeight (element preNode) weightMap postId newWeight eng
                               in if numLess (Num 0.1) (mathAbs weightChange) then (eng1, Threw TypeError)
                                  else (eng1, Returned True)))))
           | _ \<Rightarrow> (eng, Returned False)))"

definition applyOjaRule :: "engine_options \<Rightarrow> world \<Rightarrow> engine \<Rightarrow> node_id \<Rightarrow> node_id \<Rightarrow> engine \<times> bool completion" where
  "applyOjaRule opts w eng preId postId =
     (case (getNeuron eng preId, getNeuron eng postId) of
        (Some preNeuron, Some postNeuron) \<Rightarrow>
          (case getNode w preId of
             None \<Rightarrow> (eng, Threw TypeError)
           | Some preNode \<Rightarrow>
               (case hebbianWeights eng (element preNode) of
                  None \<Rightarrow> (eng, Threw TypeError)
                | Some weightMap \<Rightarrow>
                    (let currentWeight = currentWeightOf eng weightMap postId;
                         postActivity = mathMin (membranePotential postNeuron) (Num 1);
                         preActivity = mathMin (membranePotential preNeuron) (Num 1);
                         weightChange = numMul (learningRate opts)
                           (numSub (numMul preActivity postActivity)
                                   (numMul (numMul currentWeight postActivity) postActivity));
                         newWeight = clamp01 (numAdd currentWeight weightChange)
                     in (storeWeight (element preNode) weightMap postId newWeight eng, Returned True))))
      | _ \<Rightarrow> (eng, Returned False))"

record spike_data =
  preTime :: number
  postTime :: number

text \<open>
  \<open>applySTDPRule\<close> has no check at all: a missing \<open>spikeData\<close>, an unregistered \<open>preId\<close>, a
  missing weight table and (at \<open>weightMap.set(undefined, _)\<close>) a missing post-synaptic
  neuron each throw.
\<close>

definition applySTDPRule :: "world \<Rightarrow> engine \<Rightarrow> node_id \<Rightarrow> node_id \<Rightarrow> spike_data option \<Rightarrow> engine \<times> bool completion" where
  "applySTDPRule w eng preId postId spikeData =
     (case spikeData of
        None \<Rightarrow> (eng, Threw TypeError)
      | Some sd \<Rightarrow>
          (let deltaT = numSub (postTime sd) (preTime sd)
           in (case getNode w preId of
                 None \<Rightarrow> (eng, Threw TypeError)
               | Some preNode \<Rightarrow>
                   (case hebbianWeights eng (element preNode) of
                      None \<Rightarrow> (eng, Threw TypeError)
                    | Some weightMap \<Rightarrow>
                        (let currentWeight = currentWeightOf eng weightMap postId;
                             tauPlus = 20; tauMinus = 20; aPlus = 0.1; aMinus = 0.12;
                             weightChange = (if numLess (Num 0) deltaT
                                             then numMul (Num aPlus) (mathExp (numDiv (numNeg deltaT) tauPlus))
                                             else numMul (Num (- aMinus)) (mathExp (numDiv deltaT tauMinus)));
                             newWeight = clamp01 (numAdd currentWeight weightChange)
                         in (case getNeuron eng postId of
                               None \<Rightarrow> (eng, Threw TypeError)
                             | Some _ \<Rightarrow>
                                 (storeWeight (element preNode) weightMap postId newWeight eng,
                                  Returned True)))))))"

datatype rule_name = Hebbian | BCM | Oja | STDP | UnknownRule

definition applyPlasticityRule :: "engine_options \<Rightarrow> plasticity_options \<Rightarrow> world \<Rightarrow> engine \<Rightarrow> rule_name \<Rightarrow> node_id \<Rightarrow> node_id \<Rightarrow> spike_data option \<Rightarrow> engine \<times> bool completion" where
  "applyPlasticityRule opts popts w eng ruleName preId postId spikeData =
     (case ruleName of
        Hebbian \<Rightarrow> applyHebbianRule opts w eng preId postId
      | BCM \<Rightarrow> applyBCMRule opts popts w eng preId postId
      | Oja \<Rightarrow> applyOjaRule opts w eng preId postId
      | STDP \<Rightarrow> applySTDPRule w eng preId postId spikeData
      | UnknownRule \<Rightarrow> (eng, Returned False))"

definition scaleSynapse :: "world \<Rightarrow> engine \<Rightarrow> node_id \<Rightarrow> node_id \<Rightarrow> number \<Rightarrow> engine \<times> unit completion" where
  "scaleSynapse w eng preId postId factor =
     (case getNode w preId of
        None \<Rightarrow> (eng, Threw TypeError)
      | Some preNode \<Rightarrow>
          (case (hebbianWeights eng (element preNode), getNeuron eng postId) of
             (Some weightMap, Some postNeuron) \<Rightarrow>
               (let currentWeight = currentWeightOf eng weightMap postId;
                    newWeight = clamp01 (numMul currentWeight factor)
                in (storeWeight (element preNode) weightMap postId newWeight eng, Returned ()))
           | _ \<Rightarrow> (eng, Returned ())))"

text \<open>
  \<open>applyHomeostaticPlasticity()\<close>: every neuron whose element has an activity record scales
  all its outgoing synapses by \<open>1 + (0.3 - average) * homeostasisRate\<close>.
\<close>

definition applyHomeostaticPlasticity :: "plasticity_options \<Rightarrow> world \<Rightarrow> engine \<Rightarrow> engine \<times> unit completion" where
  "applyHomeostaticPlasticity popts w eng =
     seq (map (\<lambda>(nodeId, neuron) eng.
                 case getNode w nodeId of
                   None \<Rightarrow> (eng, Returned ())
                 | Some node \<Rightarrow>
                     (case neuronActivity eng (element node) of
                        None \<Rightarrow> (eng, Returned ())
                      | Some act \<Rightarrow>
                          (let targetActivity = Num 0.3;
                               scalingFactor = numAdd (Num 1)
                                                 (numMul (numSub targetActivity (average act))
                                                         (homeostasisRate popts))
                           in seq (map (\<lambda>postId eng. scaleSynapse w eng nodeId postId scalingFactor)
                                       (synapses neuron)) eng)))
              (neuralNetwork eng)) eng"

text \<open>
  \<open>applyDopaminergicModulation(rewardSignal)\<close> computes the modulation factor and then
  calls \<open>this.synapticTagging.forEach\<close>; a \<open>WeakMap\<close> has no such method.
\<close>

definition applyDopaminergicModulation :: "plasticity_options \<Rightarrow> world \<Rightarrow> engine \<Rightarrow> number \<Rightarrow> engine \<times> unit completion" where
  "applyDopaminergicModulation popts w eng rewardSignal = (eng, Threw TypeError)"

section \<open>Wavefunction solver\<close>

text \<open>
  The three \<open>Float32Array\<close> buffers of a wavefunction, as lists of exact reals: \<open>psi\<close> and
  \<open>kSpace\<close> interleave real and imaginary parts and have length \<open>2 * N * N\<close>, \<open>potential\<close> has
  length \<open>N * N\<close> (\<open>createWavefunction\<close> allocates them so). An assignment to an index outside
  a typed array is ignored, which is what \<open>xs[i := v]\<close> does.
\<close>

record wavefunction =
  psi :: "real list"
  potential :: "real list"
  kSpace :: "real list"

record sim_options =
  resolution :: nat
  dt :: real
  dx :: real
  hbar :: real
  potentialScale :: real
  nonlinearity :: real

text \<open>
  A transform object is called as \<open>fft.transform(input, output)\<close>. The model of such a
  call gives the returned value and the contents of both argument arrays afterwards.
\<close>

type_synonym fft_call = "real list \<Rightarrow> real list \<Rightarrow> real list \<times> real list \<times> real list"

record fft =
  fft_transform :: fft_call
  fft_inverse :: fft_call

text \<open>\<open>directFourierTransform(data)\<close>: the direct double sum, each output divided by \<open>N\<close>.\<close>

definition directFourierTransform :: "nat \<Rightarrow> real list \<Rightarrow> real list" where
  "directFourierTransform N data =
     foldl (\<lambda>output ky.
       foldl (\<lambda>output kx.
         (let (sumRe, sumIm) =
                foldl (\<lambda>(sumRe, sumIm) y.
                  foldl (\<lambda>(sumRe, sumIm) x.
                    (let idx = (y * N + x) * 2;
                         angle = - 2 * pi * (real (kx * x + ky * y) / real N)
                     in (sumRe + (data ! idx * cos angle - data ! (idx + 1) * sin angle),
                         sumIm + (data ! idx * sin angle + data ! (idx + 1) * cos angle))))
                  (sumRe, sumIm) [0..<N])
                (0, 0) [0..<N];
              outIdx = (ky * N + kx) * 2
          in output[outIdx := sumRe / real N, outIdx + 1 := sumIm / real N]))
       output [0..<N])
     (replicate (length data) 0) [0..<N]"

text \<open>\<open>inverseFourierTransform(data)\<close>: the same sum with the opposite sign, not divided.\<close>

definition inverseFourierTransform :: "nat \<Rightarrow> real list \<Rightarrow> real list" where
  "inverseFourierTransform N data =
     foldl (\<lambda>output y.
       foldl (\<lambda>output x.
         (let (sumRe, sumIm) =
                foldl (\<lambda>(sumRe, sumIm) ky.
                  foldl (\<lambda>(sumRe, sumIm) kx.
                    (let idx = (ky * N + kx) * 2;
                         angle = 2 * pi * (real (kx * x + ky * y) / real N)
                     in (sumRe + (data ! idx * cos angle - data ! (idx + 1) * sin angle),
                         sumIm + (data ! idx * sin angle + data ! (idx + 1) * cos angle))))
                  (sumRe, sumIm) [0..<N])
                (0, 0) [0..<N];
              outIdx = (y * N + x) * 2
          in output[outIdx := sumRe, outIdx + 1 := sumIm]))
       output [0..<N])
     (replicate (length data) 0) [0..<N]"

text \<open>
  The fallback installed by \<open>initSimulationEngine\<close> when no \<open>FFT\<close> library is loaded:
  \<open>{transform: (data) => this.directFourierTransform(data), inverse: (data) =>
  this.inverseFourierTransform(data)}\<close>. Each closure takes one argument and returns a fresh
  array; a second argument is ignored and neither argument is written.
\<close>

definition fallbackFFT :: "sim_options \<Rightarrow> fft" where
  "fallbackFFT opts =
     \<lparr>fft_transform = (\<lambda>data out. (directFourierTransform (resolution opts) data, data, out)),
      fft_inverse = (\<lambda>data out. (inverseFourierTransform (resolution opts) data, data, out))\<rparr>"

text \<open>Steps 1 and 5 of \<open>stepWavefunction\<close>: the half step in position space.\<close>

definition positionHalfStep :: "sim_options \<Rightarrow> real list \<Rightarrow> real list \<Rightarrow> real list" where
  "positionHalfStep opts pot psi0 =
     foldl (\<lambda>psi i.
       (let re = psi ! (i * 2);
            im = psi ! (i * 2 + 1);
            V = pot ! i;
            psi2 = re\<^sup>2 + im\<^sup>2;
            nonlinearRe = - nonlinearity opts * psi2 * im;
            nonlinearIm = nonlinearity opts * psi2 * re;
            potentialRe = V * im / hbar opts;
            potentialIm = - V * re / hbar opts
        in psi[i * 2 := psi ! (i * 2) + (nonlinearRe + potentialRe) * dt opts / 2,
               i * 2 + 1 := psi ! (i * 2 + 1) + (nonlinearIm + potentialIm) * dt opts / 2]))
     psi0 [0..<length psi0 div 2]"

text \<open>Step 3: the rotation of every mode in momentum space.\<close>

definition kineticStep :: "sim_options \<Rightarrow> real list \<Rightarrow> real list" where
  "kineticStep opts kSpace0 =
     (let N = resolution opts in
      foldl (\<lambda>ks ky.
        foldl (\<lambda>ks kx.
          (let idx = (ky * N + kx) * 2;
               kxAdjusted = (if real kx > real N / 2 then real kx - real N else real kx);
               kyAdjusted = (if real ky > real N / 2 then real ky - real N else real ky);
               k2 = (kxAdjusted\<^sup>2 + kyAdjusted\<^sup>2) / (real N * dx opts)\<^sup>2;
               phase = - hbar opts * k2 * dt opts;
               re = ks ! idx;
               im = ks ! (idx + 1)
           in ks[idx := re * cos phase - im * sin phase,
                 idx + 1 := re * sin phase + im * cos phase]))
        ks [0..<N])
      kSpace0 [0..<N])"

text \<open>The value of \<open>norm\<close> that \<open>normalizeWavefunction\<close> computes before it tests it.\<close>

definition waveNorm :: "sim_options \<Rightarrow> real list \<Rightarrow> real" where
  "waveNorm opts p =
     sqrt (foldl (\<lambda>norm i. norm + ((p ! (i * 2))\<^sup>2 + (p ! (i * 2 + 1))\<^sup>2)) 0 [0..<length p div 2]
           * dx opts * dx opts)"

definition normalizeWavefunction :: "sim_options \<Rightarrow> wavefunction \<Rightarrow> wavefunction" where
  "normalizeWavefunction opts wfn =
     (let norm = waveNorm opts (psi wfn)
      in if norm > 0
         then (let scale = 1 / norm
               in wfn\<lparr>psi := foldl (\<lambda>p i. p[i := p ! i * scale]) (psi wfn) [0..<length (psi wfn)]\<rparr>)
         else wfn)"

text \<open>Steps 1 to 5 of \<open>stepWavefunction\<close>: the field handed to the normalisation.\<close>

definition evolveWavefunction :: "sim_options \<Rightarrow> fft \<Rightarrow> wavefunction \<Rightarrow> wavefunction" where
  "evolveWavefunction opts fft wfn =
     (let psi1 = positionHalfStep opts (potential wfn) (psi wfn);
          (_, psi2, kSpace1) = fft_transform fft psi1 (kSpace wfn);
          kSpace2 = kineticStep opts kSpace1;
          (_, kSpace3, psi3) = fft_inverse fft kSpace2 psi2;
          psi4 = positionHalfStep opts (potential wfn) psi3
      in wfn\<lparr>psi := psi4, kSpace := kSpace3\<rparr>)"

definition stepWavefunction :: "sim_options \<Rightarrow> fft \<Rightarrow> wavefunction \<Rightarrow> wavefunction" where
  "stepWavefunction opts fft wfn = normalizeWavefunction opts (evolveWavefunction opts fft wfn)"

text \<open>\<open>\<Sigma>|\<psi>|\<^sup>2 \<sqdot> dx\<^sup>2\<close> of a field, the quantity the normalisation is to make 1.\<close>

definition totalProbability :: "sim_options \<Rightarrow> real list \<Rightarrow> real" where
  "totalProbability opts p =
     (\<Sum>i\<leftarrow>[0..<length p div 2]. (p ! (i * 2))\<^sup>2 + (p ! (i * 2 + 1))\<^sup>2) * (dx opts)\<^sup>2"

section \<open>Scenarios\<close>

text \<open>
  The stores right after construction, and small populations built through the
  registration methods, used to run the operations on concrete inputs.
\<close>

definition emptyWorld :: world where
  "emptyWorld = \<lparr>quantumNodes = [], entanglements = Map.empty, entangledPairs = Map.empty,
                  bellStates = Map.empty, measurementBackaction = 0.05,
                  interactionHistory = Map.empty, draws = 0\<rparr>"

definition emptyEngine :: engine where
  "emptyEngine = \<lparr>neuralNetwork = [], hebbianWeights = Map.empty, neuronActivity = Map.empty\<rparr>"

definition defaultEngineOptions :: engine_options where
  "defaultEngineOptions = \<lparr>learningRate = Num 0.01, plasticityThreshold = Num 0.5, maxSynapses = 15,
                             decayRate = Num 0.95\<rparr>"

definition defaultPlasticityOptions :: plasticity_options where
  "defaultPlasticityOptions = \<lparr>bcmThreshold = Num 0.5, homeostasisRate = Num 0.001,
                                 dopamineModulation = Num 0.2\<rparr>"

text \<open>A seed whose every draw is 0.3 (spin down), and one whose every draw is 0.7 (spin up).\<close>

definition lowSeed :: "nat \<Rightarrow> real" where
  "lowSeed n = 0.3"

definition highSeed :: "nat \<Rightarrow> real" where
  "highSeed n = 0.7"

definition threeNodes :: world where
  "threeNodes =
     registerQuantumNode lowSeed
       (registerQuantumNode lowSeed (registerQuantumNode lowSeed emptyWorld 1 ''A'') 2 ''B'') 3 ''C''"

definition fourNeurons :: engine where
  "fourNeurons =
     (let w = registerQuantumNode lowSeed threeNodes 4 ''D''
      in registerNeuron 0.5 0.1 w
           (registerNeuron 0.5 0.1 w
              (registerNeuron 0.5 0.1 w (registerNeuron 0.5 0.1 w emptyEngine ''A'') ''B'') ''C'') ''D'')"

definition fourNodes :: world where
  "fourNodes = registerQuantumNode lowSeed threeNodes 4 ''D''"

text \<open>\<open>A\<close> and \<open>B\<close> linked by the interface's own \<open>entangleNodes\<close>.\<close>

definition linkedPair :: world where
  "linkedPair = fst (entangleNodes lowSeed threeNodes ''A'' ''B'')"

text \<open>\<open>A\<close> and \<open>B\<close> entangled by the manager with tag \<open>\<Phi>+\<close>.\<close>

definition bellPair :: world where
  "bellPair = fst (createEntanglement threeNodes ''A'' ''B'' PhiPlus)"

text \<open>A field with a single unit sample on a 2 by 2 grid.\<close>

definition unitSample :: "real list" where
  "unitSample = [1, 0, 0, 0, 0, 0, 0, 0]"

text \<open>A weight as the clamp is meant to leave it, a number of \<open>[0, 1]\<close>.\<close>

definition inUnitInterval :: "number \<Rightarrow> bool" where
  "inUnitInterval v = (case v of Num r \<Rightarrow> 0 \<le> r \<and> r \<le> 1 | _ \<Rightarrow> False)"

text \<open>Every weight of the engine is in \<open>[0, 1]\<close> or is \<open>NaN\<close>.\<close>

definition weightsClamped :: "engine \<Rightarrow> bool" where
  "weightsClamped eng =
     (\<forall>el weightMap post v. hebbianWeights eng el = Some weightMap \<longrightarrow> weightMap post = Some v
        \<longrightarrow> v = NaN \<or> inUnitInterval v)"

text \<open>The weight kept for the synapse from the neuron on element \<open>el\<close> to neuron \<open>post\<close>.\<close>

definition storedWeight :: "engine \<Rightarrow> element \<Rightarrow> node_id \<Rightarrow> number option" where
  "storedWeight eng el post = (case hebbianWeights eng el of None \<Rightarrow> None | Some weightMap \<Rightarrow> weightMap post)"

text \<open>The assignment \<open>neuron.membranePotential = v\<close> on a registered neuron.\<close>

definition assignPotential :: "node_id \<Rightarrow> number \<Rightarrow> engine \<Rightarrow> engine" where
  "assignPotential nid v eng =
     (case getNeuron eng nid of None \<Rightarrow> eng | Some n \<Rightarrow> setNeuron nid (n\<lparr>membranePotential := v\<rparr>) eng)"

text \<open>
  The synapse from \<open>A\<close> to \<open>B\<close> at the default weight 0.3, and the activity record the
  monitor writes for \<open>B\<close>'s element at its first tick.
\<close>

definition oneSynapse :: engine where
  "oneSynapse =
     (fst (formSynapse defaultEngineOptions fourNodes fourNeurons ''A'' ''B'' (Num 0.3)))
       \<lparr>neuronActivity := [2 \<mapsto> \<lparr>recent = Num 0, average = Num 0.09, trace = [Num 0.09]\<rparr>]\<rparr>"

text \<open>The membrane potential \<open>-1e200\<close>, and both neurons of that synapse at it.\<close>

definition deepInhibition :: real where
  "deepInhibition = - (10 ^ 200)"

definition bothInhibited :: engine where
  "bothInhibited =
     assignPotential ''B'' (Num deepInhibition) (assignPotential ''A'' (Num deepInhibition) oneSynapse)"

text \<open>Only \<open>B\<close> at \<open>-1e200\<close>; \<open>A\<close> rests at the potential 0 it was registered with.\<close>

definition postInhibited :: engine where
  "postInhibited = assignPotential ''B'' (Num deepInhibition) oneSynapse"

text \<open>A fan-out limit of two, and neuron \<open>A\<close> with synapses to \<open>B\<close> and \<open>C\<close> of weight \<open>v\<close>.\<close>

definition cap2 :: engine_options where
  "cap2 = defaultEngineOptions\<lparr>maxSynapses := 2\<rparr>"

definition twoSynapses :: "number \<Rightarrow> engine" where
  "twoSynapses v =
     fst (formSynapse cap2 fourNodes (fst (formSynapse cap2 fourNodes fourNeurons ''A'' ''B'' v)) ''A'' ''C'' v)"

text \<open>\<open>A\<close> collapsed once, with nothing entangled.\<close>

definition collapsedA :: world where
  "collapsedA = fst (collapseWaveFunction 1 lowSeed threeNodes ''A'')"

text \<open>A one-cell grid with the default step sizes, and a field on it.\<close>

definition smallGrid :: sim_options where
  "smallGrid = \<lparr>resolution = 1, dt = 0.05, dx = 0.1, hbar = 1.0, potentialScale = 0.2, nonlinearity = 0.1\<rparr>"

definition smallPacket :: wavefunction where
  "smallPacket = \<lparr>psi = [3, 4], potential = [0], kSpace = [0, 0]\<rparr>"

section \<open>Evaluation on the scenarios\<close>

lemmas world_defs = Let_def emptyWorld_def threeNodes_def fourNodes_def registerQuantumNode_def
  generateQuantumState_def mathRandom_def setNode_def getNode_def lowSeed_def highSeed_def

lemmas engine_defs = fourNeurons_def emptyEngine_def registerNeuron_def getNeuron_def setNeuron_def
  randomNeurotransmitter_def defaultEngineOptions_def defaultPlasticityOptions_def cap2_def

lemmas entangle_defs = createEntanglement_def createVisualEntanglement_def applyBellState_def
  assignState_def

section \<open>Stores and sequences\<close>

lemma getNode_setNode [simp]:
  "getNode (setNode k n w) k' = (if k' = k then Some n else getNode w k')"
  by (simp add: getNode_def setNode_def update_conv')

lemma setNode_fields [simp]:
  "entanglements (setNode k n w) = entanglements w"
  "entangledPairs (setNode k n w) = entangledPairs w"
  "bellStates (setNode k n w) = bellStates w"
  "measurementBackaction (setNode k n w) = measurementBackaction w"
  "interactionHistory (setNode k n w) = interactionHistory w"
  "draws (setNode k n w) = draws w"
  by (simp_all add: setNode_def)

lemma getNode_fields [simp]:
  "getNode (w\<lparr>entanglements := e\<rparr>) = getNode w"
  "getNode (w\<lparr>entangledPairs := p\<rparr>) = getNode w"
  "getNode (w\<lparr>bellStates := bs\<rparr>) = getNode w"
  "getNode (w\<lparr>interactionHistory := h\<rparr>) = getNode w"
  "getNode (w\<lparr>draws := d\<rparr>) = getNode w"
  by (simp_all add: getNode_def fun_eq_iff)

text \<open>A property kept by every statement of a sequence is kept by the sequence, thrown or not.\<close>

lemma seq_preserves:
  assumes "\<And>act s. act \<in> set acts \<Longrightarrow> P s \<Longrightarrow> P (fst (act s))"
    and "P s"
  shows "P (fst (seq acts s))"
  using assms
proof (induction acts arbitrary: s)
  case Nil
  then show ?case by simp
next
  case (Cons act acts)
  have 1: "P (fst (act s))" using Cons.prems by simp
  show ?case
  proof (cases "act s")
    case (Pair s' r)
    with 1 have s': "P s'" by simp
    show ?thesis
    proof (cases r)
      case (Returned u)
      with Pair Cons.IH [OF _ s'] Cons.prems(1) show ?thesis by simp
    next
      case (Threw e)
      with Pair s' show ?thesis by simp
    qed
  qed
qed

text \<open>The store each handler leaves behind, whatever way it completes.\<close>

lemma handleObservation_store:
  assumes "getNode w nid = Some node" and "superposition (state node)"
  shows "fst (handleObservation opts depth rng w nid) =
           (if below (scaled (amplitude (state node)) 0.9) (observationThreshold opts)
            then fst (collapseWaveFunction depth rng
                   (setNode nid (node\<lparr>state := (state node)\<lparr>amplitude := scaled (amplitude (state node)) 0.9\<rparr>\<rparr>) w) nid)
            else setNode nid (node\<lparr>state := (state node)\<lparr>amplitude := scaled (amplitude (state node)) 0.9\<rparr>\<rparr>) w)"
  using assms
  by (simp add: handleObservation_def Let_def scheduleDecoherence_def split: prod.splits completion.splits)

lemma handleMeasurement_store:
  "fst (handleMeasurement depth rng w k) = fst (collapseWaveFunction depth rng w k)"
  by (simp add: handleMeasurement_def split: prod.splits completion.splits option.splits)

lemma createEntanglement_store:
  "fst (createEntanglement w a b t) =
     (case (getNode w a, getNode w b) of
        (Some na, Some nb) \<Rightarrow>
          fst (applyBellState
                 (w\<lparr>bellStates := ((bellStates w)(element na \<mapsto> t))(element nb \<mapsto> t),
                    entangledPairs := ((entangledPairs w)(a \<mapsto> b))(b \<mapsto> a)\<rparr>) a b t)
      | _ \<Rightarrow> w)"
  by (simp add: createEntanglement_def createVisualEntanglement_def Let_def
        split: option.splits prod.splits completion.splits bell.splits)

section \<open>Collapse and its recursion\<close>

lemma collapsedFrom_refl [simp]: "collapsedFrom n n"
  by (simp add: collapsedFrom_def)

lemma collapsedFrom_trans: "collapsedFrom n n' \<Longrightarrow> collapsedFrom n' n'' \<Longrightarrow> collapsedFrom n n''"
  by (simp add: collapsedFrom_def)

text \<open>
  However deep the recursion goes and however it ends, every registered node stays
  registered and changes at most as \<open>collapsedFrom\<close> allows.
\<close>

lemma collapse_frame:
  "getNode w k = Some n \<Longrightarrow>
     \<exists>n'. getNode (fst (collapseWaveFunction depth rng w nid)) k = Some n' \<and> collapsedFrom n n'"
proof (induction depth arbitrary: w nid n)
  case 0
  then show ?case by simp
next
  case (Suc d)
  show ?case
  proof (cases "getNode w nid")
    case None
    with Suc.prems show ?thesis by simp
  next
    case (Some node)
    define w2 where "w2 = setNode nid (node\<lparr>state := (state node)\<lparr>superposition := False,
                          spin := (if rng (draws w) > 0.5 then Up else Down)\<rparr>\<rparr>) (w\<lparr>draws := Suc (draws w)\<rparr>)"
    obtain n2 where n2: "getNode w2 k = Some n2" "collapsedFrom n n2"
      using Suc.prems Some by (cases "k = nid") (auto simp add: w2_def collapsedFrom_def)
    have "fst (collapseWaveFunction (Suc d) rng w nid) = w2
          \<or> (\<exists>eid. fst (collapseWaveFunction (Suc d) rng w nid) = fst (collapseWaveFunction d rng w2 eid))"
      using Some by (auto simp add: mathRandom_def Let_def w2_def split: option.splits)
    then show ?thesis
    proof
      assume "fst (collapseWaveFunction (Suc d) rng w nid) = w2"
      with n2 show ?thesis by auto
    next
      assume "\<exists>eid. fst (collapseWaveFunction (Suc d) rng w nid) = fst (collapseWaveFunction d rng w2 eid)"
      then obtain eid where
        e: "fst (collapseWaveFunction (Suc d) rng w nid) = fst (collapseWaveFunction d rng w2 eid)" ..
      from Suc.IH [OF n2(1), of eid] obtain n' where
        "getNode (fst (collapseWaveFunction d rng w2 eid)) k = Some n'" "collapsedFrom n2 n'" by blast
      with e n2 show ?thesis by (auto intro: collapsedFrom_trans)
    qed
  qed
qed

text \<open>With at least one stack frame, the node collapsed is out of superposition afterwards.\<close>

lemma collapse_target:
  assumes "getNode w nid = Some n"
  shows "\<exists>n'. getNode (fst (collapseWaveFunction (Suc depth) rng w nid)) nid = Some n'
           \<and> collapsedFrom n n' \<and> \<not> superposition (state n')"
proof -
  define w2 where "w2 = setNode nid (n\<lparr>state := (state n)\<lparr>superposition := False,
                        spin := (if rng (draws w) > 0.5 then Up else Down)\<rparr>\<rparr>) (w\<lparr>draws := Suc (draws w)\<rparr>)"
  obtain n2 where n2: "getNode w2 nid = Some n2" "collapsedFrom n n2" "\<not> superposition (state n2)"
    by (auto simp add: w2_def collapsedFrom_def)
  have "fst (collapseWaveFunction (Suc depth) rng w nid) = w2
        \<or> (\<exists>eid. fst (collapseWaveFunction (Suc depth) rng w nid) = fst (collapseWaveFunction depth rng w2 eid))"
    using assms by (auto simp add: mathRandom_def Let_def w2_def split: option.splits)
  then show ?thesis
  proof
    assume "fst (collapseWaveFunction (Suc depth) rng w nid) = w2"
    with n2 show ?thesis by auto
  next
    assume "\<exists>eid. fst (collapseWaveFunction (Suc depth) rng w nid) = fst (collapseWaveFunction depth rng w2 eid)"
    then obtain eid where
      e: "fst (collapseWaveFunction (Suc depth) rng w nid) = fst (collapseWaveFunction depth rng w2 eid)" ..
    from collapse_frame [OF n2(1), of depth rng eid] obtain n' where
      n': "getNode (fst (collapseWaveFunction depth rng w2 eid)) nid = Some n'" "collapsedFrom n2 n'" by blast
    with n2 have "collapsedFrom n n'" "\<not> superposition (state n')"
      by (auto intro: collapsedFrom_trans simp add: collapsedFrom_def)
    with e n' show ?thesis by auto
  qed
qed

text \<open>
  Two nodes whose elements point at each other in \<open>entanglements\<close> send
  \<open>collapseWaveFunction\<close> back and forth: each call redraws a spin and calls the partner,
  so no stack is deep enough.
\<close>

lemma idOfElement_update:
  "map_of nodes k = Some n \<Longrightarrow> element n' = element n \<Longrightarrow>
     idOfElement (AList.update k n' nodes) el = idOfElement nodes el"
  by (induction nodes) (auto simp add: idOfElement_def)

lemma linked_pair_overflows:
  assumes "getNode w a = Some na" and "getNode w b = Some nb"
    and "entanglements w (element na) = Some (element nb)"
    and "entanglements w (element nb) = Some (element na)"
    and "idOfElement (quantumNodes w) (element na) = Some a"
    and "idOfElement (quantumNodes w) (element nb) = Some b"
    and "a \<noteq> []" and "b \<noteq> []"
  shows "snd (collapseWaveFunction depth rng w a) = Threw RangeError"
  using assms
proof (induction depth arbitrary: w a b na nb)
  case 0
  show ?case by simp
next
  case (Suc d)
  define na' where "na' = na\<lparr>state := (state na)\<lparr>superposition := False,
                      spin := (if rng (draws w) > 0.5 then Up else Down)\<rparr>\<rparr>"
  define w2 where "w2 = setNode a na' (w\<lparr>draws := Suc (draws w)\<rparr>)"
  have el: "element na' = element na" by (simp add: na'_def)
  have ids': "idOfElement (quantumNodes (setNode a n' (w\<lparr>draws := k\<rparr>))) e = idOfElement (quantumNodes w) e"
    if "element n' = element na" for n' k e
    using Suc.prems(1) that by (simp add: setNode_def getNode_def idOfElement_update)
  have ids: "idOfElement (quantumNodes w2) e = idOfElement (quantumNodes w) e" for e
    using el by (simp add: w2_def ids')
  have step: "collapseWaveFunction (Suc d) rng w a = collapseWaveFunction d rng w2 b"
    using Suc.prems by (simp add: mathRandom_def Let_def ids' w2_def na'_def)
  have "\<exists>nb2. getNode w2 b = Some nb2 \<and> element nb2 = element nb"
    using Suc.prems(1,2) el by (auto simp add: w2_def)
  then obtain nb2 where nb2: "getNode w2 b = Some nb2" "element nb2 = element nb" by blast
  have na2: "getNode w2 a = Some na'" by (simp add: w2_def)
  have "snd (collapseWaveFunction d rng w2 b) = Threw RangeError"
    using Suc.IH [of w2 b nb2 a na'] nb2 na2 el Suc.prems ids by (simp add: w2_def)
  with step show ?case by simp
qed

text \<open>
  Claim C2: \<open>collapse(id)\<close> is idempotent, a no-op on an entity that is already collapsed,
  and because of that guard the propagation across an entangled pair always terminates.

  The method has no such guard. On the pair linked by \<open>entangleNodes\<close> a collapse of \<open>A\<close>
  ends in \<open>RangeError\<close> whatever the stack depth and the seed; and a second collapse of the
  unlinked, already collapsed \<open>C\<close> changes the store (it redraws the spin).
\<close>

theorem collapse_linked_pair_overflows:
  "snd (collapseWaveFunction depth rng linkedPair ''A'') = Threw RangeError
   \<and> isCollapsed (fst (collapseWaveFunction 1 highSeed threeNodes ''C'')) ''C''
   \<and> fst (collapseWaveFunction 1 lowSeed (fst (collapseWaveFunction 1 highSeed threeNodes ''C'')) ''C'')
       \<noteq> fst (collapseWaveFunction 1 highSeed threeNodes ''C'')"
proof -
  have "snd (collapseWaveFunction depth rng linkedPair ''A'') = Threw RangeError"
  proof -
    obtain na nb where n: "getNode linkedPair ''A'' = Some na" "getNode linkedPair ''B'' = Some nb"
      "element na = 1" "element nb = 2"
      by (simp add: linkedPair_def entangleNodes_def world_defs)
    have "entanglements linkedPair 1 = Some 2" "entanglements linkedPair 2 = Some 1"
      "idOfElement (quantumNodes linkedPair) 1 = Some ''A''"
      "idOfElement (quantumNodes linkedPair) 2 = Some ''B''"
      by (simp_all add: linkedPair_def entangleNodes_def idOfElement_def world_defs)
    with n show ?thesis
      using linked_pair_overflows [of linkedPair "''A''" na "''B''" nb depth rng] by simp
  qed
  moreover have "isCollapsed (fst (collapseWaveFunction 1 highSeed threeNodes ''C'')) ''C''"
    by (simp add: isCollapsed_def world_defs)
  moreover have
    "fst (collapseWaveFunction 1 lowSeed (fst (collapseWaveFunction 1 highSeed threeNodes ''C'')) ''C'')
       \<noteq> fst (collapseWaveFunction 1 highSeed threeNodes ''C'')"
    by (simp add: world_defs)
  ultimately show ?thesis by simp
qed

section \<open>Entanglement\<close>

lemma applyBellState_registered:
  assumes "getNode w a = Some na" and "getNode w b = Some nb"
  shows "snd (applyBellState w a b t) = Returned ()
       \<and> entangledPairs (fst (applyBellState w a b t)) = entangledPairs w
       \<and> entanglements (fst (applyBellState w a b t)) = entanglements w"
  using assms by (cases t; cases "a = b") (simp_all add: applyBellState_def assignState_def)

text \<open>Right after \<open>entangle\<close> the pair verifies as the tag it was given.\<close>

lemma verify_after_entangle:
  assumes "getNode w a = Some na" and "getNode w b = Some nb" and "a \<noteq> b"
    and "tag \<noteq> Unrecognised"
  shows "verifyBellState (fst (createEntanglement w a b tag)) a = Some tag"
    and "verifyBellState (fst (createEntanglement w a b tag)) b = Some tag"
  using assms
  by (cases tag; simp add: verifyBellState_def entangle_defs Let_def)+

text \<open>
  \<open>entangle(a, b, tag)\<close> writes the pairing of \<open>a\<close> and of \<open>b\<close> only: the entry of every other
  id, a previous partner included, is left as it was.
\<close>

lemma createEntanglement_other_entries:
  assumes "c \<noteq> a" and "c \<noteq> b"
  shows "entangledPairs (fst (createEntanglement w a b t)) c = entangledPairs w c"
proof (cases "getNode w a")
  case None
  then show ?thesis by (simp add: createEntanglement_store)
next
  case (Some na)
  show ?thesis
  proof (cases "getNode w b")
    case None
    with Some show ?thesis by (simp add: createEntanglement_store)
  next
    case (Some nb)
    define w2 where "w2 = w\<lparr>bellStates := ((bellStates w)(element na \<mapsto> t))(element nb \<mapsto> t),
                          entangledPairs := ((entangledPairs w)(a \<mapsto> b))(b \<mapsto> a)\<rparr>"
    have reg: "getNode w2 a = Some na" "getNode w2 b = Some nb"
      using \<open>getNode w a = Some na\<close> Some by (simp_all add: w2_def)
    have "fst (createEntanglement w a b t) = fst (applyBellState w2 a b t)"
      using \<open>getNode w a = Some na\<close> Some by (simp add: createEntanglement_store w2_def)
    with applyBellState_registered [OF reg, of t] assms show ?thesis
      by (simp add: w2_def)
  qed
qed

text \<open>
  \<open>entangle(a, b, tag)\<close> on two registered entities ends with both in superposition, whatever
  their mode before and whatever the tag.
\<close>

lemma entangle_reopens_members:
  assumes "getNode w a = Some na" and "getNode w b = Some nb"
  shows "\<not> isCollapsed (fst (createEntanglement w a b t)) a"
    and "\<not> isCollapsed (fst (createEntanglement w a b t)) b"
    and "getNode (fst (createEntanglement w a b t)) a \<noteq> None"
    and "getNode (fst (createEntanglement w a b t)) b \<noteq> None"
  using assms
  by (cases t; cases "a = b"; simp add: isCollapsed_def createEntanglement_store applyBellState_def assignState_def)+

text \<open>
  Claim C8, as amended: \<open>entangle(A, B, bellState)\<close> fails, returning \<open>false\<close> and leaving
  the store as it was, exactly when \<open>A\<close> or \<open>B\<close> is not registered. When both are
  registered it records \<open>A \<mapsto> B\<close> and \<open>B \<mapsto> A\<close>, also when either already has a partner (a
  previous partner keeps its own entry), and with one of the four Bell tags it returns
  \<open>true\<close>.
\<close>

theorem createEntanglement_outcome:
  "(snd (createEntanglement w a b t) = Returned False \<longleftrightarrow> getNode w a = None \<or> getNode w b = None)
   \<and> (getNode w a = None \<or> getNode w b = None \<longrightarrow> fst (createEntanglement w a b t) = w)
   \<and> (getNode w a \<noteq> None \<and> getNode w b \<noteq> None \<longrightarrow>
        (t \<noteq> Unrecognised \<longrightarrow> snd (createEntanglement w a b t) = Returned True)
        \<and> entangledPairs (fst (createEntanglement w a b t)) a = Some b
        \<and> entangledPairs (fst (createEntanglement w a b t)) b = Some a)"
proof (cases "getNode w a")
  case None
  then show ?thesis by (simp add: createEntanglement_def)
next
  case (Some na)
  show ?thesis
  proof (cases "getNode w b")
    case None
    with Some show ?thesis by (simp add: createEntanglement_def)
  next
    case (Some nb)
    define w2 where "w2 = w\<lparr>bellStates := ((bellStates w)(element na \<mapsto> t))(element nb \<mapsto> t),
                          entangledPairs := ((entangledPairs w)(a \<mapsto> b))(b \<mapsto> a)\<rparr>"
    have reg: "getNode w2 a = Some na" "getNode w2 b = Some nb"
      using \<open>getNode w a = Some na\<close> Some by (simp_all add: w2_def)
    obtain w3 r where ab: "applyBellState w2 a b t = (w3, r)" by (cases "applyBellState w2 a b t")
    with applyBellState_registered [OF reg, of t]
    have r: "r = Returned ()" and p: "entangledPairs w3 = entangledPairs w2" by simp_all
    have ce: "createEntanglement w a b t =
                (if t = Unrecognised then (w3, Threw TypeError) else (w3, Returned True))"
      using \<open>getNode w a = Some na\<close> Some ab r
      by (cases t) (simp_all add: createEntanglement_def createVisualEntanglement_def w2_def Let_def)
    with p \<open>getNode w a = Some na\<close> Some show ?thesis by (simp add: w2_def)
  qed
qed

text \<open>
  The amended sentence at work: \<open>A\<close>, already paired with \<open>B\<close>, is entangled with \<open>C\<close>, and
  an entangle call on the unregistered \<open>ghost\<close> fails without a trace.
\<close>

theorem createEntanglement_outcome_witness:
  "getNode bellPair ''A'' \<noteq> None \<and> getNode bellPair ''C'' \<noteq> None
   \<and> snd (createEntanglement bellPair ''A'' ''C'' PsiMinus) = Returned True
   \<and> entangledPairs (fst (createEntanglement bellPair ''A'' ''C'' PsiMinus)) ''C'' = Some ''A''
   \<and> getNode bellPair ''ghost'' = None
   \<and> snd (createEntanglement bellPair ''ghost'' ''A'' PhiPlus) = Returned False
   \<and> fst (createEntanglement bellPair ''ghost'' ''A'' PhiPlus) = bellPair"
proof -
  have h: "getNode bellPair ''A'' \<noteq> None" "getNode bellPair ''C'' \<noteq> None"
    "getNode bellPair ''ghost'' = None"
    by (simp_all add: bellPair_def entangle_defs world_defs)
  show ?thesis
    using h createEntanglement_outcome [of bellPair "''A''" "''C''" PsiMinus]
      createEntanglement_outcome [of bellPair "''ghost''" "''A''" PhiPlus]
    by blast
qed

text \<open>
  The sentence with \<open>fails whenever already entangled\<close> does not hold: with \<open>A\<close> and \<open>B\<close>
  paired, entangling \<open>A\<close> with \<open>C\<close> succeeds, \<open>A\<close> now points at \<open>C\<close>, and \<open>B\<close> still points
  at \<open>A\<close>.
\<close>

theorem entangle_overwrites_partner:
  "entangledPairs bellPair ''A'' = Some ''B''
   \<and> snd (createEntanglement bellPair ''A'' ''C'' PsiMinus) = Returned True
   \<and> entangledPairs (fst (createEntanglement bellPair ''A'' ''C'' PsiMinus)) ''A'' = Some ''C''
   \<and> entangledPairs (fst (createEntanglement bellPair ''A'' ''C'' PsiMinus)) ''B'' = Some ''A''"
  by (simp add: bellPair_def entangle_defs world_defs)

text \<open>
  Claim C1, as amended: after \<open>entangle(A, B, tag)\<close> on two distinct registered entities
  (neither linked through the interface's own \<open>entangleNodes\<close>) and for any of the four
  tags, a measurement of either member redraws the spin of that member alone. The other
  member keeps the spin and phase that \<open>entangle\<close> assigned (\<open>A\<close>: up, phase 0; \<open>B\<close>: up for
  \<open>\<Phi>\<close>, down for \<open>\<Psi>\<close>, phase 0 for \<open>+\<close>, \<open>\<pi>\<close> for \<open>-\<close>) and the measured member keeps its
  phase, so the phase column of the truth table holds for every seed, and the spin column
  holds exactly when the draw gives the measured member the spin it was assigned. In
  particular, after \<open>entangle(A, B, \<Phi>+)\<close> and a \<open>measure(A)\<close> that yields up, \<open>B\<close> is up with
  the phase of \<open>A\<close>.
\<close>

theorem bell_table_after_measure:
  assumes "getNode w a = Some na" and "getNode w b = Some nb" and "a \<noteq> b"
    and "entanglements w (element na) = None" and "entanglements w (element nb) = None"
    and "truthTable tag = Some (sameSpin, samePhase)"
    and "m = a \<or> m = b"
  shows "\<exists>na' nb'. getNode (measureAfterEntangle (Suc depth) rng w a b tag m) a = Some na'
           \<and> getNode (measureAfterEntangle (Suc depth) rng w a b tag m) b = Some nb'
           \<and> phase (state na') = 0
           \<and> phase (state nb') = (if samePhase then 0 else pi)
           \<and> ((phase (state na') = phase (state nb')) = samePhase)
           \<and> spin (state na') = (if m = a then (if rng (draws w) > 0.5 then Up else Down) else Up)
           \<and> spin (state nb') = (if m = b then (if rng (draws w) > 0.5 then Up else Down)
                                  else if sameSpin then Up else Down)
           \<and> (((spin (state na') = spin (state nb')) = sameSpin)
                = (if m = a then rng (draws w) > 0.5 else (rng (draws w) > 0.5) = sameSpin))"
  using assms
  by (cases tag; cases "m = a")
     (auto simp add: measureAfterEntangle_def handleMeasurement_def entangle_defs mathRandom_def Let_def)

text \<open>The scenario of the specification: \<open>\<Phi>+\<close>, and a seed whose draw makes \<open>A\<close> spin up.\<close>

theorem bell_table_after_measure_witness:
  "getNode threeNodes ''A'' \<noteq> None \<and> getNode threeNodes ''B'' \<noteq> None
   \<and> truthTable PhiPlus = Some (True, True)
   \<and> (\<exists>na' nb'. getNode (measureAfterEntangle (Suc 0) highSeed threeNodes ''A'' ''B'' PhiPlus ''A'') ''A'' = Some na'
         \<and> getNode (measureAfterEntangle (Suc 0) highSeed threeNodes ''A'' ''B'' PhiPlus ''A'') ''B'' = Some nb'
         \<and> spin (state na') = Up \<and> spin (state nb') = Up
         \<and> phase (state nb') = phase (state na'))"
proof -
  obtain na nb where h: "getNode threeNodes ''A'' = Some na" "getNode threeNodes ''B'' = Some nb"
    "element na = 1" "element nb = 2"
    by (simp add: world_defs)
  have e: "entanglements threeNodes (element na) = None" "entanglements threeNodes (element nb) = None"
    by (simp_all add: world_defs)
  have t: "truthTable PhiPlus = Some (True, True)" by simp
  have d: "highSeed (draws threeNodes) > 0.5" by (simp add: highSeed_def)
  from bell_table_after_measure [OF h(1,2) _ e t, of "''A''" 0 highSeed] d h
  show ?thesis by auto
qed

text \<open>
  The sentence with \<open>for every random seed\<close> does not hold: under \<open>\<Phi>+\<close>, which asks for
  equal spins, a draw of 0.3 leaves \<open>A\<close> down after its measurement while \<open>B\<close> stays up.
\<close>

theorem bell_spin_decorrelates:
  "snd (handleMeasurement 1 lowSeed bellPair ''A'') = Returned ()
   \<and> map_option (spin \<circ> state) (getNode (fst (handleMeasurement 1 lowSeed bellPair ''A'')) ''A'') = Some Down
   \<and> map_option (spin \<circ> state) (getNode (fst (handleMeasurement 1 lowSeed bellPair ''A'')) ''B'') = Some Up
   \<and> truthTable PhiPlus = Some (True, True)"
  by (simp add: handleMeasurement_def bellPair_def entangle_defs world_defs)

section \<open>Observation\<close>

text \<open>
  What \<open>handleObservation\<close> does to a superposed node whose state carries a numeric
  amplitude: the amplitude is multiplied by 0.9, the node collapses exactly when the
  result is below \<open>observationThreshold\<close>, and \<open>observationCount\<close> is not written.
\<close>

lemma observe_numeric_amplitude:
  assumes "getNode w nid = Some node" and "superposition (state node)"
    and "amplitude (state node) = Some a"
  shows "(\<exists>node'. getNode (fst (handleObservation opts (Suc depth) rng w nid)) nid = Some node'
            \<and> amplitude (state node') = Some (a * 0.9)
            \<and> (superposition (state node') \<longleftrightarrow> \<not> a * 0.9 < observationThreshold opts)
            \<and> observationCount (state node') = observationCount (state node))
         \<and> observationThreshold default_options = 0.85"
proof -
  define node1 where "node1 = node\<lparr>state := (state node)\<lparr>amplitude := Some (a * 0.9)\<rparr>\<rparr>"
  define w1 where "w1 = setNode nid node1 w"
  have n1: "getNode w1 nid = Some node1" by (simp add: w1_def)
  have ho: "fst (handleObservation opts (Suc depth) rng w nid) =
              (if a * 0.9 < observationThreshold opts
               then fst (collapseWaveFunction (Suc depth) rng w1 nid) else w1)"
    unfolding handleObservation_store [OF assms(1,2)]
    using assms(3) by (simp add: scaled_def below_def w1_def node1_def del: collapseWaveFunction.simps)
  have "\<exists>node'. getNode (fst (handleObservation opts (Suc depth) rng w nid)) nid = Some node'
            \<and> amplitude (state node') = Some (a * 0.9)
            \<and> (superposition (state node') \<longleftrightarrow> \<not> a * 0.9 < observationThreshold opts)
            \<and> observationCount (state node') = observationCount (state node)"
  proof (cases "a * 0.9 < observationThreshold opts")
    case True
    from collapse_target [OF n1, of depth rng] obtain n' where
      "getNode (fst (collapseWaveFunction (Suc depth) rng w1 nid)) nid = Some n'"
      "collapsedFrom node1 n'" "\<not> superposition (state n')" by blast
    with True ho show ?thesis
      by (auto simp add: collapsedFrom_def node1_def simp del: collapseWaveFunction.simps)
  next
    case False
    with ho n1 assms show ?thesis
      by (auto simp add: node1_def simp del: collapseWaveFunction.simps)
  qed
  then show ?thesis by (simp add: default_options_def)
qed

text \<open>
  On \<open>A\<close> of the Bell pair, whose amplitude \<open>entangle\<close> has set to 1: one observation gives
  0.9, which is not below 0.85, so \<open>A\<close> stays superposed.
\<close>

lemma observe_entangled_member:
  "getNode bellPair ''A'' \<noteq> None
   \<and> (\<exists>node'. getNode (fst (handleObservation default_options (Suc 0) lowSeed bellPair ''A'')) ''A'' = Some node'
         \<and> amplitude (state node') = Some 0.9 \<and> superposition (state node')
         \<and> observationCount (state node') = None)"
proof -
  obtain node where h: "getNode bellPair ''A'' = Some node" "superposition (state node)"
    "amplitude (state node) = Some 1" "observationCount (state node) = None"
    by (simp add: bellPair_def entangle_defs world_defs)
  from observe_numeric_amplitude [OF h(1,2,3), of default_options 0 lowSeed] h
  show ?thesis by (auto simp add: default_options_def)
qed

text \<open>
  A state without an amplitude: \<open>undefined *= 0.9\<close> is \<open>NaN\<close>, which is below no threshold, so
  the observation changes nothing that can be read back, at any threshold.
\<close>

lemma observe_without_amplitude:
  assumes "getNode w nid = Some node" and "superposition (state node)"
    and "amplitude (state node) = None"
  shows "getNode (fst (handleObservation opts depth rng w nid)) nid = Some node"
  unfolding handleObservation_store [OF assms(1,2)]
  using assms(3) by (simp add: scaled_def below_def)

text \<open>Registration leaves the state of the new node superposed and without an amplitude.\<close>

lemma registered_without_amplitude:
  assumes "getNode w nid = None"
  shows "\<exists>node. getNode (registerQuantumNode rng w el nid) nid = Some node
           \<and> superposition (state node) \<and> amplitude (state node) = None
           \<and> observationCount (state node) = None"
  using assms
  by (simp add: registerQuantumNode_def generateQuantumState_def mathRandom_def Let_def)

text \<open>
  Claim C7: \<open>observe(id)\<close> on a superposed entity multiplies its amplitude by 0.9, forces
  collapse exactly when the resulting amplitude falls below the configured
  \<open>observationThreshold\<close> (default 0.85), and increments the entity's \<open>observationCount\<close> by
  one.

  \<open>registerQuantumNode\<close> puts \<open>amplitude: 1.0\<close> on the node, while \<open>handleObservation\<close> scales
  and tests \<open>node.state.amplitude\<close>; and nothing assigns \<open>observationCount\<close>, which
  \<open>calculateCoherenceTime\<close> reads for its Zeno factor. On the freshly registered \<open>A\<close> an
  observation therefore ends (in the \<open>TypeError\<close> of \<open>scheduleDecoherence\<close>) with the store
  as it was: no amplitude of 0.9, no count of 1, and \<open>A\<close> still superposed after any number
  of observations. On \<open>A\<close> of the Bell pair, to which \<open>entangle\<close> has given the amplitude 1,
  the amplitude becomes 0.9 and the count is still 0.
\<close>

theorem observe_fresh_entity:
  "map_option (superposition \<circ> state) (getNode threeNodes ''A'') = Some True
   \<and> map_option (amplitude \<circ> state) (getNode threeNodes ''A'') = Some None
   \<and> map_option (node_amplitude) (getNode threeNodes ''A'') = Some 1
   \<and> map_option (observations \<circ> state) (getNode threeNodes ''A'') = Some 0
   \<and> handleObservation default_options depth rng threeNodes ''A'' = (threeNodes, Threw TypeError)
   \<and> run default_options depth rng threeNodes (replicate n (Observe ''A'')) = threeNodes
   \<and> map_option (amplitude \<circ> state)
       (getNode (fst (handleObservation default_options 1 lowSeed bellPair ''A'')) ''A'') = Some (Some 0.9)
   \<and> map_option (observations \<circ> state)
       (getNode (fst (handleObservation default_options 1 lowSeed bellPair ''A'')) ''A'') = Some 0"
proof -
  have one: "handleObservation default_options depth rng threeNodes ''A'' = (threeNodes, Threw TypeError)"
    for depth rng
    by (simp add: handleObservation_def default_options_def scaled_def below_def
          scheduleDecoherence_def world_defs)
  have "run default_options depth rng threeNodes (replicate n (Observe ''A'')) = threeNodes"
    unfolding run_def by (induction n) (simp_all add: one)
  moreover have "map_option (superposition \<circ> state) (getNode threeNodes ''A'') = Some True"
    "map_option (amplitude \<circ> state) (getNode threeNodes ''A'') = Some None"
    "map_option (node_amplitude) (getNode threeNodes ''A'') = Some 1"
    "map_option (observations \<circ> state) (getNode threeNodes ''A'') = Some 0"
    by (simp_all add: observations_def world_defs)
  moreover have "map_option (amplitude \<circ> state)
       (getNode (fst (handleObservation default_options 1 lowSeed bellPair ''A'')) ''A'') = Some (Some 0.9)"
    "map_option (observations \<circ> state)
       (getNode (fst (handleObservation default_options 1 lowSeed bellPair ''A'')) ''A'') = Some 0"
    by (simp_all add: observations_def handleObservation_def default_options_def scaled_def below_def
          scheduleDecoherence_def bellPair_def entangle_defs world_defs)
  ultimately show ?thesis using one by simp
qed

section \<open>Collapsed is kept\<close>

lemma isCollapsed_collapse:
  "isCollapsed w nid \<Longrightarrow> isCollapsed (fst (collapseWaveFunction depth rng w k)) nid"
proof -
  assume c: "isCollapsed w nid"
  then obtain n where n: "getNode w nid = Some n" "\<not> superposition (state n)"
    by (auto simp add: isCollapsed_def split: option.splits)
  from collapse_frame [OF n(1), of depth rng k] n(2)
  show ?thesis by (auto simp add: isCollapsed_def collapsedFrom_def)
qed

lemma isCollapsed_setNode:
  "isCollapsed (setNode k n w) nid = (if nid = k then \<not> superposition (state n) else isCollapsed w nid)"
  by (simp add: isCollapsed_def)

lemma isCollapsed_fields [simp]:
  "isCollapsed (w\<lparr>entanglements := e\<rparr>) = isCollapsed w"
  "isCollapsed (w\<lparr>entangledPairs := p\<rparr>) = isCollapsed w"
  "isCollapsed (w\<lparr>bellStates := bs\<rparr>) = isCollapsed w"
  "isCollapsed (w\<lparr>interactionHistory := h\<rparr>) = isCollapsed w"
  "isCollapsed (w\<lparr>draws := d\<rparr>) = isCollapsed w"
  by (simp_all add: isCollapsed_def fun_eq_iff)

lemma isCollapsed_assignState:
  "isCollapsed w nid \<Longrightarrow> k \<noteq> nid \<Longrightarrow> isCollapsed (fst (assignState k f w)) nid"
  by (simp add: assignState_def isCollapsed_setNode split: option.splits)

lemma perform_keeps_collapsed:
  assumes "isCollapsed w nid" and "\<not> entanglesEntity nid op"
  shows "isCollapsed (perform opts depth rng w op) nid"
proof (cases op)
  case (Observe k)
  show ?thesis
  proof (cases "getNode w k")
    case None
    with Observe assms show ?thesis by (simp add: handleObservation_def)
  next
    case (Some node)
    show ?thesis
    proof (cases "superposition (state node)")
      case False
      with Some Observe assms show ?thesis by (simp add: handleObservation_def)
    next
      case True
      with Some assms(1) have "k \<noteq> nid" by (auto simp add: isCollapsed_def)
      with Some True Observe assms(1) show ?thesis
        by (simp add: handleObservation_store isCollapsed_setNode isCollapsed_collapse)
    qed
  qed
next
  case (Measure k)
  with assms show ?thesis
    by (simp add: handleMeasurement_store isCollapsed_collapse)
next
  case (Collapse k)
  with assms show ?thesis by (simp add: isCollapsed_collapse)
next
  case (Decohere k)
  show ?thesis
  proof (cases "getNode w k")
    case None
    with Decohere assms show ?thesis by (simp add: applyDecoherence_def)
  next
    case (Some node)
    have same: "\<not> superposition (state node)" if "nid = k"
      using that Some assms(1) by (simp add: isCollapsed_def)
    have "isCollapsed (fst (applyDecoherence depth rng w k)) nid"
      unfolding applyDecoherence_def using Some
      apply (simp add: mathRandom_def Let_def del: seq.simps)
      apply (rule seq_preserves)
       apply (auto simp add: isCollapsed_collapse isCollapsed_setNode same Let_def mathRandom_def assms(1)
                   split: if_splits)
      done
    with Decohere show ?thesis by simp
  qed
next
  case (Timeout k)
  with assms show ?thesis
    by (simp add: decoherenceTimeout_def isCollapsed_collapse split: option.splits)
next
  case (Break k)
  with assms show ?thesis
    by (auto simp add: breakEntanglement_def Let_def split: option.splits)
next
  case (Entangle k1 k2 t)
  with assms have ne: "k1 \<noteq> nid" "k2 \<noteq> nid" by auto
  have "isCollapsed (fst (applyBellState w' k1 k2 t)) nid" if "isCollapsed w' nid" for w'
    unfolding applyBellState_def
    by (rule seq_preserves [where P = "\<lambda>w. isCollapsed w nid", OF _ that])
       (cases t; auto simp add: isCollapsed_assignState ne)
  then show ?thesis using Entangle assms(1)
    by (simp add: createEntanglement_store split: option.splits)
next
  case (Link k1 k2)
  with assms have "k1 \<noteq> nid" "k2 \<noteq> nid" by auto
  with Link assms(1) show ?thesis
    by (auto simp add: entangleNodes_def generateQuantumState_def mathRandom_def Let_def
          isCollapsed_setNode split: option.splits)
qed

text \<open>
  Claim C6, as amended: for every entity and every sequence of core operations (observe,
  measure, collapse, decoherence, entangle, break) in which no \<open>entangle\<close> call names the
  entity as a member, an entity that is in \<open>Collapsed\<close> mode is still in \<open>Collapsed\<close> mode
  afterwards. (\<open>entangle\<close> puts both its members back into superposition, and so does the
  interface's \<open>entangleNodes\<close>.)
\<close>

theorem collapsed_stays_collapsed:
  assumes "isCollapsed w nid" and "\<forall>op \<in> set ops. \<not> entanglesEntity nid op"
  shows "isCollapsed (run opts depth rng w ops) nid"
  using assms unfolding run_def
  by (induction ops arbitrary: w) (simp_all add: perform_keeps_collapsed)

text \<open>
  A collapsed \<open>A\<close> goes through every kind of operation, among them an entanglement of the
  two other entities.
\<close>

theorem collapsed_stays_collapsed_witness:
  "isCollapsed collapsedA ''A''
   \<and> isCollapsed
       (run default_options 2 highSeed collapsedA
          [Observe ''A'', Measure ''A'', Decohere ''A'', Timeout ''A'', Break ''A'',
           Entangle ''B'' ''C'' PsiPlus, Link ''B'' ''C'', Collapse ''A'', Observe ''B'']) ''A''"
proof -
  have h1: "isCollapsed collapsedA ''A''"
    by (simp add: collapsedA_def isCollapsed_def world_defs)
  have h2: "\<forall>op \<in> set [Observe ''A'', Measure ''A'', Decohere ''A'', Timeout ''A'', Break ''A'',
                          Entangle ''B'' ''C'' PsiPlus, Link ''B'' ''C'', Collapse ''A'', Observe ''B''].
              \<not> entanglesEntity ''A'' op"
    by simp
  show ?thesis
    using h1 collapsed_stays_collapsed [OF h1 h2, of default_options 2 highSeed] by blast
qed

text \<open>
  The sentence without the restriction does not hold: \<open>A\<close> is collapsed, and an
  \<open>entangle(A, B, \<Phi>+)\<close>, which is no reset, puts it back into superposition.
\<close>

theorem entangle_reopens_superposition:
  "isCollapsed (run default_options 1 lowSeed threeNodes [Collapse ''A'']) ''A''
   \<and> \<not> isCollapsed (run default_options 1 lowSeed threeNodes
                      [Collapse ''A'', Entangle ''A'' ''B'' PhiPlus]) ''A''"
  by (simp add: run_def isCollapsed_def entangle_defs world_defs)

section \<open>Unknown ids\<close>

text \<open>
  Claim C9: every core operation invoked with an id that is not registered is a no-op
  that returns a failure indicator and never raises; this holds for measure, collapse,
  the plasticity rules and the entanglement operations alike.

  \<open>handleMeasurement\<close> dereferences the node after the collapse returned, \<open>applyBCMRule\<close>
  dereferences the post-synaptic node before its own check, and \<open>applySTDPRule\<close> checks
  nothing: each throws \<open>TypeError\<close> on the id \<open>ghost\<close>, which no store contains.
\<close>

theorem missing_id_faults:
  "handleMeasurement (Suc depth) rng threeNodes ''ghost'' = (threeNodes, Threw TypeError)
   \<and> applyBCMRule defaultEngineOptions defaultPlasticityOptions fourNodes fourNeurons ''A'' ''ghost''
       = (fourNeurons, Threw TypeError)
   \<and> applySTDPRule fourNodes fourNeurons ''ghost'' ''A'' (Some sd) = (fourNeurons, Threw TypeError)"
  by (simp add: handleMeasurement_def applyBCMRule_def applySTDPRule_def world_defs)

text \<open>The operations that do guard the lookup: nothing changes and nothing is thrown.\<close>

lemma missing_id_noops:
  assumes "getNode w nid = None" and "entangledPairs w nid = None" and "getNeuron eng nid = None"
  shows "collapseWaveFunction (Suc depth) rng w nid = (w, Returned ())"
    and "handleObservation opts depth rng w nid = (w, Returned ())"
    and "createEntanglement w nid other t = (w, Returned False)"
    and "createEntanglement w other nid t = (w, Returned False)"
    and "verifyBellState w nid = None"
    and "breakEntanglement w nid = (w, Returned False)"
    and "applyHebbianRule eopts w eng nid other = (eng, Returned False)"
    and "applyOjaRule eopts w eng other nid = (eng, Returned False)"
    and "formSynapse eopts w eng nid other v = (eng, Returned False)"
  using assms
  by (simp_all add: handleObservation_def createEntanglement_def verifyBellState_def
        breakEntanglement_def applyHebbianRule_def applyOjaRule_def formSynapse_def
        split: option.splits)

section \<open>Synaptic weights\<close>

text \<open>The clamp on each kind of number: only \<open>NaN\<close> escapes \<open>[0, 1]\<close>.\<close>

lemma clamp01_cases:
  "clamp01 (Num r) = Num (max 0 (min 1 r))"
  "clamp01 PosInfinity = Num 1"
  "clamp01 NegInfinity = Num 0"
  "clamp01 NaN = NaN"
  by (simp_all add: clamp01_def mathMin_def mathMax_def max_def min_def)

lemma clamp01_clamped: "clamp01 x = NaN \<or> inUnitInterval (clamp01 x)"
  by (cases x) (simp_all add: clamp01_cases inUnitInterval_def)

lemma clamp01_NaN_iff: "clamp01 x = NaN \<longleftrightarrow> x = NaN"
  by (cases x) (simp_all add: clamp01_cases)

lemma clamp01_in_range: "x \<noteq> NaN \<Longrightarrow> inUnitInterval (clamp01 x)"
  using clamp01_clamped [of x] by (simp add: clamp01_NaN_iff)

lemma weightsClamped_storeWeight:
  assumes "weightsClamped eng" and "hebbianWeights eng el = Some weightMap"
  shows "weightsClamped (storeWeight el weightMap post (clamp01 x) eng)"
  using assms clamp01_clamped [of x] unfolding weightsClamped_def storeWeight_def
  by (auto split: if_splits)

lemma stored_weight:
  "hebbianWeights (storeWeight el weightMap post v eng) el = Some (weightMap(post \<mapsto> v))"
  by (simp add: storeWeight_def)

lemma weightsClamped_Hebbian:
  "weightsClamped eng \<Longrightarrow> weightsClamped (fst (applyHebbianRule opts w eng preId postId))"
  by (auto simp add: applyHebbianRule_def Let_def weightsClamped_storeWeight split: option.splits)

lemma weightsClamped_BCM:
  "weightsClamped eng \<Longrightarrow> weightsClamped (fst (applyBCMRule opts popts w eng preId postId))"
  by (auto simp add: applyBCMRule_def Let_def weightsClamped_storeWeight split: option.splits)

lemma weightsClamped_Oja:
  "weightsClamped eng \<Longrightarrow> weightsClamped (fst (applyOjaRule opts w eng preId postId))"
  by (auto simp add: applyOjaRule_def Let_def weightsClamped_storeWeight split: option.splits)

lemma weightsClamped_STDP:
  "weightsClamped eng \<Longrightarrow> weightsClamped (fst (applySTDPRule w eng preId postId spikeData))"
  by (auto simp add: applySTDPRule_def Let_def weightsClamped_storeWeight split: option.splits)

lemma weightsClamped_scaleSynapse:
  "weightsClamped eng \<Longrightarrow> weightsClamped (fst (scaleSynapse w eng preId postId factor))"
  by (auto simp add: scaleSynapse_def Let_def weightsClamped_storeWeight split: option.splits)

lemma weightsClamped_homeostatic:
  "weightsClamped eng \<Longrightarrow> weightsClamped (fst (applyHomeostaticPlasticity popts w eng))"
  unfolding applyHomeostaticPlasticity_def
  apply (erule seq_preserves [rotated])
  apply (auto simp add: Let_def split: option.splits)
  apply (erule seq_preserves [rotated])
  apply (auto simp add: weightsClamped_scaleSynapse)
  done

text \<open>
  A rule that returns \<open>true\<close> has stored a weight for the pair, and that weight is in
  \<open>[0, 1]\<close> or is \<open>NaN\<close>.
\<close>

lemma rule_success_stores:
  assumes "snd (applyPlasticityRule opts popts w eng ruleName preId postId spikeData) = Returned True"
  shows "\<exists>preNode v. getNode w preId = Some preNode
           \<and> storedWeight (fst (applyPlasticityRule opts popts w eng ruleName preId postId spikeData))
                (element preNode) postId = Some v
           \<and> (v = NaN \<or> inUnitInterval v)"
  using assms
  by (cases ruleName)
     (auto simp add: applyPlasticityRule_def applyHebbianRule_def applyBCMRule_def applyOjaRule_def
        applySTDPRule_def Let_def stored_weight storedWeight_def clamp01_clamped
        split: option.splits if_splits)

text \<open>
  What the clamp does secure, on every input: weights that are in \<open>[0, 1]\<close> or \<open>NaN\<close> stay
  so under every rule (whether it returns or throws), under \<open>scaleSynapse\<close>, the
  homeostatic scaling and the reward modulation.
\<close>

lemma plasticity_weights_clamped:
  assumes "weightsClamped eng"
  shows "weightsClamped (fst (applyPlasticityRule opts popts w eng ruleName preId postId spikeData))"
    and "weightsClamped (fst (scaleSynapse w eng preId postId factor))"
    and "weightsClamped (fst (applyHomeostaticPlasticity popts w eng))"
    and "weightsClamped (fst (applyDopaminergicModulation popts w eng rewardSignal))"
proof -
  show "weightsClamped (fst (applyPlasticityRule opts popts w eng ruleName preId postId spikeData))"
    using assms
    by (cases ruleName)
       (simp_all add: applyPlasticityRule_def weightsClamped_Hebbian weightsClamped_BCM
          weightsClamped_Oja weightsClamped_STDP)
qed (use assms in \<open>simp_all add: weightsClamped_scaleSynapse weightsClamped_homeostatic
       applyDopaminergicModulation_def\<close>)

section \<open>Overflow in the rules\<close>

text \<open>The overflow threshold lies between \<open>10 ^ 300\<close> and \<open>10 ^ 320\<close>.\<close>

lemma overflowThreshold_bounds:
  "10 ^ 300 \<le> overflowThreshold" "overflowThreshold \<le> 10 ^ 320"
proof -
  have "(2::real) ^ 32 \<le> 10 ^ 10" by simp
  then have "((2::real) ^ 32) ^ 32 \<le> (10 ^ 10) ^ 32" by (rule power_mono) simp
  then have "(2::real) ^ (32 * 32) \<le> 10 ^ (10 * 32)" by (simp only: power_mult)
  then have up: "(2::real) ^ 1024 \<le> 10 ^ 320"
    by (simp only: mult_numeral_left_semiring_numeral num.simps arith_simps)
  have "(0::real) \<le> 2 ^ 970" by (rule zero_le_power) simp
  with up show "overflowThreshold \<le> 10 ^ 320" unfolding overflowThreshold_def by linarith
  have "(10::real) ^ 3 \<le> 2 ^ 10" by simp
  then have "((10::real) ^ 3) ^ 100 \<le> (2 ^ 10) ^ 100" by (rule power_mono) simp
  then have "(10::real) ^ (3 * 100) \<le> 2 ^ (10 * 100)" by (simp only: power_mult)
  then have lo: "(10::real) ^ 300 \<le> 2 ^ 1000"
    by (simp only: mult_numeral_left_semiring_numeral num.simps arith_simps)
  have a: "(2::real) ^ 1000 \<le> 2 ^ 1023" by (rule power_increasing) simp_all
  have b: "(2::real) ^ 970 \<le> 2 ^ 1023" by (rule power_increasing) simp_all
  have "(2::real) ^ Suc 1023 = 2 * 2 ^ 1023" by (rule power_Suc)
  then have c: "(2::real) ^ 1024 = 2 * 2 ^ 1023" by (simp only: Suc_numeral arith_simps)
  from lo a b c show "10 ^ 300 \<le> overflowThreshold" unfolding overflowThreshold_def by linarith
qed

lemma deepInhibition_size:
  "deepInhibition < 0" "100 * 10 ^ 320 \<le> deepInhibition * deepInhibition"
  "- (10 ^ 300) < 2 * deepInhibition"
proof -
  define D :: real where "D = 10 ^ 200"
  have D1: "1 \<le> D" unfolding D_def by (rule one_le_power) simp
  then show "deepInhibition < 0" unfolding deepInhibition_def D_def by linarith
  have "(10::real) ^ (200 + 200) = D * D" unfolding D_def by (rule power_add)
  then have dd: "D * D = 10 ^ 400" by (simp only: arith_simps)
  have "(10::real) ^ (2 + 320) \<le> 10 ^ 400" by (rule power_increasing) simp_all
  then have "(10::real) ^ 2 * 10 ^ 320 \<le> 10 ^ 400" by (simp only: power_add)
  moreover have "(10::real) ^ 2 = 100" by simp
  ultimately have "100 * 10 ^ 320 \<le> D * D" using dd by (simp only:)
  then show "100 * 10 ^ 320 \<le> deepInhibition * deepInhibition"
    unfolding deepInhibition_def D_def by (simp only: minus_mult_minus)
  have "(10::real) ^ (1 + 200) \<le> 10 ^ 300" by (rule power_increasing) simp_all
  then have "10 * D \<le> 10 ^ 300" unfolding D_def by (simp only: power_add power_one_right)
  with D1 show "- (10 ^ 300) < 2 * deepInhibition" unfolding deepInhibition_def D_def by linarith
qed


lemma overflowThreshold_pos: "0 < overflowThreshold"
proof -
  have "(0::real) < 10 ^ 300" by (rule zero_less_power) simp
  with overflowThreshold_bounds(1) show ?thesis by linarith
qed

lemma toNumber_overflow: "overflowThreshold \<le> r \<Longrightarrow> toNumber r = PosInfinity"
  by (simp add: toNumber_def)

lemma toNumber_finite:
  "- overflowThreshold < r \<Longrightarrow> r < overflowThreshold \<Longrightarrow> toNumber r = Num r"
  by (simp add: toNumber_def)

text \<open>
  Oja's rule on two strongly negative potentials \<open>p\<close> and \<open>q\<close> and a prior weight \<open>c\<close>: once
  \<open>p \<sqdot> q\<close> and \<open>c \<sqdot> q \<sqdot> q\<close> both overflow, \<open>pre \<sqdot> post - w \<sqdot> post \<sqdot> post\<close> is \<open>\<infinity> - \<infinity>\<close>.
\<close>

lemma oja_difference:
  assumes "0 < c" and "p < 0" and "q < 0"
    and "overflowThreshold \<le> p * q" and "overflowThreshold \<le> c * q * q"
    and "- overflowThreshold < c * q"
  shows "numSub (numMul (mathMin (Num p) (Num 1)) (mathMin (Num q) (Num 1)))
                (numMul (numMul (Num c) (mathMin (Num q) (Num 1))) (mathMin (Num q) (Num 1))) = NaN"
proof -
  have m: "mathMin (Num p) (Num 1) = Num p" "mathMin (Num q) (Num 1) = Num q"
    using assms(2,3) by (simp_all add: mathMin_def)
  have "c * q < 0" using assms(1,3) by (simp add: mult_pos_neg)
  with overflowThreshold_pos have "c * q < overflowThreshold" by linarith
  with assms(6) have cq: "toNumber (c * q) = Num (c * q)"
    by (simp add: toNumber_finite)
  show ?thesis
    using assms(4,5) by (simp add: m cq toNumber_overflow numSub_def)
qed

text \<open>
  The BCM rule on a strongly negative post-synaptic potential \<open>q\<close> and a resting
  pre-synaptic neuron: \<open>\<eta> \<sqdot> post \<sqdot> (post - \<theta>)\<close> overflows and is then multiplied by 0.
\<close>

lemma bcm_change:
  assumes "q < 0" and "lr * q < 0"
    and "overflowThreshold \<le> lr * q * (q - t)"
    and "- overflowThreshold < lr * q" and "- overflowThreshold < q - t" and "q - t < 0"
  shows "numMul (numMul (numMul (Num lr) (mathMin (Num q) (Num 1)))
                        (numSub (mathMin (Num q) (Num 1)) (Num t)))
                (mathMin (Num 0) (Num 1)) = NaN"
proof -
  have m: "mathMin (Num q) (Num 1) = Num q" "mathMin (Num 0) (Num 1) = Num 0"
    using assms(1) by (simp_all add: mathMin_def)
  from assms(2) overflowThreshold_pos have "lr * q < overflowThreshold" by linarith
  with assms(4) have a: "toNumber (lr * q) = Num (lr * q)"
    by (simp add: toNumber_finite)
  from assms(6) overflowThreshold_pos have "q - t < overflowThreshold" by linarith
  with assms(5) have b: "toNumber (q - t) = Num (q - t)"
    by (simp add: toNumber_finite)
  show ?thesis
    using assms(3) by (simp add: m a b numSub_def toNumber_overflow infinityTimes_def)
qed

text \<open>Both at the potential \<open>-1e200\<close>, with the default weight and learning rate.\<close>

lemma oja_deep:
  "numSub (numMul (mathMin (Num deepInhibition) (Num 1)) (mathMin (Num deepInhibition) (Num 1)))
          (numMul (numMul (Num 0.3) (mathMin (Num deepInhibition) (Num 1)))
                  (mathMin (Num deepInhibition) (Num 1))) = NaN"
proof (rule oja_difference)
  define K :: real where "K = 10 ^ 320"
  define L :: real where "L = 10 ^ 300"
  define S where "S = deepInhibition * deepInhibition"
  have K: "0 < K" unfolding K_def by (rule zero_less_power) simp
  note b = overflowThreshold_bounds [folded K_def L_def]
  note d = deepInhibition_size [folded K_def L_def S_def]
  show "(0::real) < 0.3" by simp
  show "deepInhibition < 0" by (rule d)
  show "deepInhibition < 0" by (rule d)
  show "overflowThreshold \<le> deepInhibition * deepInhibition"
    unfolding S_def [symmetric] using b d K by linarith
  have "0.3 * deepInhibition * deepInhibition = 0.3 * S" unfolding S_def by simp
  then show "overflowThreshold \<le> 0.3 * deepInhibition * deepInhibition"
    using b d K by linarith
  show "- overflowThreshold < 0.3 * deepInhibition"
    using b d by linarith
qed

lemma bcm_deep:
  "numMul (numMul (numMul (Num (1 / 100)) (mathMin (Num deepInhibition) (Num 1)))
                  (numSub (mathMin (Num deepInhibition) (Num 1)) (Num (9 / 200))))
          (mathMin (Num 0) (Num 1)) = NaN"
proof (rule bcm_change)
  define K :: real where "K = 10 ^ 320"
  define L :: real where "L = 10 ^ 300"
  define S where "S = deepInhibition * deepInhibition"
  have K: "0 < K" unfolding K_def by (rule zero_less_power) simp
  have L: "1 \<le> L" unfolding L_def by (rule one_le_power) simp
  note b = overflowThreshold_bounds [folded K_def L_def]
  note d = deepInhibition_size [folded K_def L_def S_def]
  show "deepInhibition < 0" by (rule d)
  show "1 / 100 * deepInhibition < 0" using d by linarith
  have "1 / 100 * deepInhibition * (deepInhibition - 9 / 200)
          = 1 / 100 * S - (9 / 20000) * deepInhibition"
    unfolding S_def by (simp add: algebra_simps)
  then show "overflowThreshold \<le> 1 / 100 * deepInhibition * (deepInhibition - 9 / 200)"
    using b d K by linarith
  show "- overflowThreshold < 1 / 100 * deepInhibition" using b d by linarith
  show "- overflowThreshold < deepInhibition - 9 / 200" using b d L by linarith
  show "deepInhibition - 9 / 200 < 0" using d by linarith
qed

text \<open>Results of magnitude at most 1 are far from the threshold.\<close>

lemma toNumber_unit: "\<bar>r\<bar> \<le> 1 \<Longrightarrow> toNumber r = Num r"
proof -
  assume r: "\<bar>r\<bar> \<le> 1"
  define L :: real where "L = 10 ^ 300"
  have "1 < L" unfolding L_def by (rule one_less_power) simp_all
  with overflowThreshold_bounds(1) [folded L_def] have "1 < overflowThreshold" by linarith
  with r show ?thesis by (intro toNumber_finite) linarith+
qed

text \<open>
  Claim C3: for every plasticity rule (Hebbian, STDP, BCM, Oja), every prior weight in
  \<open>[0, 1]\<close> and all real membrane potentials and spike times, the weight after the update
  lies in \<open>[0, 1]\<close>; homeostatic scaling and reward modulation keep every weight in \<open>[0, 1]\<close>
  as well.

  Each rule ends in \<open>Math.max(0, Math.min(1, currentWeight + weightChange))\<close>, which lets
  \<open>NaN\<close> through. With the prior weight 0.3 and both membrane potentials at \<open>-1e200\<close>,
  Oja's rule forms \<open>pre \<sqdot> post\<close> and \<open>w \<sqdot> post\<^sup>2\<close>, both of which overflow to \<open>+\<infinity>\<close>, and
  their difference is \<open>NaN\<close>; with the pre-synaptic potential 0 and the post-synaptic at
  \<open>-1e200\<close> the BCM rule multiplies an overflowed \<open>+\<infinity>\<close> by 0. Either rule returns \<open>true\<close>
  with \<open>NaN\<close> stored as the weight of the synapse.
\<close>

theorem clamp_passes_NaN:
  "storedWeight bothInhibited 1 ''B'' = Some (Num 0.3)
   \<and> snd (applyPlasticityRule defaultEngineOptions defaultPlasticityOptions fourNodes bothInhibited
             Oja ''A'' ''B'' None) = Returned True
   \<and> storedWeight (fst (applyPlasticityRule defaultEngineOptions defaultPlasticityOptions fourNodes
                            bothInhibited Oja ''A'' ''B'' None)) 1 ''B'' = Some NaN
   \<and> storedWeight postInhibited 1 ''B'' = Some (Num 0.3)
   \<and> snd (applyPlasticityRule defaultEngineOptions defaultPlasticityOptions fourNodes postInhibited
             BCM ''A'' ''B'' None) = Returned True
   \<and> storedWeight (fst (applyPlasticityRule defaultEngineOptions defaultPlasticityOptions fourNodes
                            postInhibited BCM ''A'' ''B'' None)) 1 ''B'' = Some NaN
   \<and> inUnitInterval (Num 0.3) \<and> \<not> inUnitInterval NaN"
  by (simp add: applyPlasticityRule_def applyOjaRule_def applyBCMRule_def bothInhibited_def
        postInhibited_def oneSynapse_def assignPotential_def storedWeight_def storeWeight_def
        inUnitInterval_def formSynapse_def currentWeightOf_def weightOf_def
        oja_deep bcm_deep toNumber_unit clamp01_cases
        world_defs engine_defs)

section \<open>Fan-out limit\<close>

text \<open>The comparison \<open><\<close> of the numbers is a strict order.\<close>

lemma numLess_irrefl [simp]: "\<not> numLess a a"
  by (cases a) simp_all

lemma numLess_trans: "numLess a b \<Longrightarrow> numLess b c \<Longrightarrow> numLess a c"
  by (cases a; cases b; cases c) simp_all

lemma numLess_asym: "numLess a b \<Longrightarrow> \<not> numLess b a"
  using numLess_trans [of a b a] by auto

text \<open>
  The search loop of \<open>pruneWeakestSynapse\<close>: what it returns is the initial minimum or
  below it, no weight it has seen is below what it returns, and a candidate it names
  carries exactly that weight.
\<close>

lemma weakest_search:
  fixes weight :: "node_id \<Rightarrow> number option"
  assumes "foldl (\<lambda>(weakestId, minWeight) synapseId.
                    case weight synapseId of
                      None \<Rightarrow> (weakestId, minWeight)
                    | Some v \<Rightarrow> if numLess v minWeight then (Some synapseId, v) else (weakestId, minWeight))
                 (k0, m0) xs = (k, m)"
    and "\<forall>j. k0 = Some j \<longrightarrow> weight j = Some m0"
  shows "(m = m0 \<and> k = k0 \<or> numLess m m0) \<and> (\<forall>s v. s \<in> set xs \<longrightarrow> weight s = Some v \<longrightarrow> \<not> numLess v m)
       \<and> (\<forall>j. k = Some j \<longrightarrow> weight j = Some m \<and> (j \<in> set xs \<or> k0 = Some j))"
  using assms
proof (induction xs arbitrary: k0 m0)
  case Nil
  then show ?case by simp
next
  case (Cons x xs)
  show ?case
  proof (cases "weight x")
    case None
    with Cons.prems Cons.IH [of k0 m0] show ?thesis by auto
  next
    case (Some v)
    show ?thesis
    proof (cases "numLess v m0")
      case True
      with Some Cons.prems have
        f: "foldl (\<lambda>(weakestId, minWeight) synapseId.
                    case weight synapseId of
                      None \<Rightarrow> (weakestId, minWeight)
                    | Some v \<Rightarrow> if numLess v minWeight then (Some synapseId, v) else (weakestId, minWeight))
                 (Some x, v) xs = (k, m)"
        by simp
      from Cons.IH [OF f] Some have
        ih: "m = v \<and> k = Some x \<or> numLess m v"
            "\<forall>s u. s \<in> set xs \<longrightarrow> weight s = Some u \<longrightarrow> \<not> numLess u m"
            "\<forall>j. k = Some j \<longrightarrow> weight j = Some m \<and> (j \<in> set xs \<or> x = j)"
        by auto
      from ih(1) True have "numLess m m0" using numLess_trans by blast
      moreover from ih(1) have "\<not> numLess v m" using numLess_asym by auto
      ultimately show ?thesis using ih(2,3) Some by auto
    next
      case False
      with Some Cons.prems have
        f: "foldl (\<lambda>(weakestId, minWeight) synapseId.
                    case weight synapseId of
                      None \<Rightarrow> (weakestId, minWeight)
                    | Some v \<Rightarrow> if numLess v minWeight then (Some synapseId, v) else (weakestId, minWeight))
                 (k0, m0) xs = (k, m)"
        by simp
      from Cons.IH [OF f] Cons.prems(2) have
        ih: "m = m0 \<and> k = k0 \<or> numLess m m0"
            "\<forall>s u. s \<in> set xs \<longrightarrow> weight s = Some u \<longrightarrow> \<not> numLess u m"
            "\<forall>j. k = Some j \<longrightarrow> weight j = Some m \<and> (j \<in> set xs \<or> k0 = Some j)"
        by auto
      from ih(1) False have "\<not> numLess v m" using numLess_trans by blast
      then show ?thesis using ih Some by auto
    qed
  qed
qed

text \<open>
  When \<open>pruneWeakestSynapse\<close> removes a synapse, it is one of minimum weight: its weight is
  below 1 and no synapse of the neuron has a weight below it.
\<close>

lemma prune_evicts_minimum:
  assumes "getNeuron eng nodeId = Some neuron" and "getNode w nodeId = Some node"
    and "hebbianWeights eng (element node) = Some weightMap"
    and "getNeuron (fst (pruneWeakestSynapse w eng nodeId)) nodeId = Some neuron'"
    and "synapses neuron' \<noteq> synapses neuron"
  shows "\<exists>k v. k \<in> set (synapses neuron) \<and> synapses neuron' = removeAll k (synapses neuron)
           \<and> weightOf eng weightMap k = Some v \<and> numLess v (Num 1)
           \<and> (\<forall>s u. s \<in> set (synapses neuron) \<longrightarrow> weightOf eng weightMap s = Some u \<longrightarrow> \<not> numLess u v)"
proof -
  obtain k m where f: "foldl (\<lambda>(weakestId, minWeight) synapseId.
                    case weightOf eng weightMap synapseId of
                      None \<Rightarrow> (weakestId, minWeight)
                    | Some v \<Rightarrow> if numLess v minWeight then (Some synapseId, v) else (weakestId, minWeight))
                 (None, Num 1) (synapses neuron) = (k, m)"
    by (meson surj_pair)
  from weakest_search [OF f] have
    ws: "m = Num 1 \<and> k = None \<or> numLess m (Num 1)"
        "\<forall>s v. s \<in> set (synapses neuron) \<longrightarrow> weightOf eng weightMap s = Some v \<longrightarrow> \<not> numLess v m"
        "\<forall>j. k = Some j \<longrightarrow> weightOf eng weightMap j = Some m \<and> j \<in> set (synapses neuron)"
    by auto
  have "\<exists>j. k = Some j \<and> synapses neuron' = removeAll j (synapses neuron)"
    using assms f
    by (auto simp add: pruneWeakestSynapse_def Let_def getNeuron_def setNeuron_def update_conv'
          split: option.splits if_splits)
  then obtain j where j: "k = Some j" "synapses neuron' = removeAll j (synapses neuron)"
    by blast
  with ws(3) have wj: "weightOf eng weightMap j = Some m" "j \<in> set (synapses neuron)"
    by auto
  from ws(1) j(1) have "numLess m (Num 1)"
    by simp
  with ws(2) j wj show ?thesis by blast
qed

text \<open>
  With two synapses of weight 0.3 at a limit of two, a third \<open>formSynapse\<close> evicts \<open>B\<close>, the
  first synapse of minimal weight, and then stops in the call of the undefined
  \<open>removeSynapticConnection\<close>: the new synapse is not inserted.
\<close>

lemma formSynapse_eviction_aborts:
  "snd (formSynapse cap2 fourNodes (twoSynapses (Num 0.3)) ''A'' ''D'' (Num 0.3)) = Threw TypeError
   \<and> map_option synapses
         (getNeuron (fst (formSynapse cap2 fourNodes (twoSynapses (Num 0.3)) ''A'' ''D'' (Num 0.3))) ''A'')
       = Some [''C'']"
  by (simp add: twoSynapses_def formSynapse_def pruneWeakestSynapse_def weightOf_def world_defs engine_defs)

text \<open>
  Claim C4: a neuron's outgoing synapse count never exceeds \<open>maxSynapses\<close>, and an
  eviction at capacity removes a synapse of minimum weight.

  \<open>pruneWeakestSynapse\<close> looks for a weight strictly below its initial \<open>minWeight = 1\<close>.
  When both existing synapses have weight 1 it finds none, evicts nothing, and the third
  synapse is added on top: three outgoing synapses at a limit of two.
\<close>

theorem formSynapse_exceeds_capacity:
  "snd (formSynapse cap2 fourNodes (twoSynapses (Num 1)) ''A'' ''D'' (Num 1)) = Returned True
   \<and> map_option synapses
         (getNeuron (fst (formSynapse cap2 fourNodes (twoSynapses (Num 1)) ''A'' ''D'' (Num 1))) ''A'')
       = Some [''B'', ''C'', ''D'']
   \<and> length [''B'', ''C'', ''D''] > maxSynapses cap2"
  by (simp add: twoSynapses_def formSynapse_def pruneWeakestSynapse_def weightOf_def world_defs engine_defs)

section \<open>Normalisation of the wavefunction\<close>

lemma foldl_accumulate:
  "foldl (\<lambda>acc i. acc + f i) a xs = a + sum_list (map f xs)" for a :: real
  by (induction xs arbitrary: a) (simp_all add: add.assoc)

lemma scale_loop:
  "n \<le> length p \<Longrightarrow>
     length (foldl (\<lambda>p i. p[i := p ! i * c]) p [0..<n]) = length p
     \<and> (\<forall>i<length p. foldl (\<lambda>p i. p[i := p ! i * c]) p [0..<n] ! i = (if i < n then p ! i * c else p ! i))"
  for p :: "real list"
  by (induction n) (auto simp add: nth_list_update less_Suc_eq)

lemma sumSquares_nonneg:
  "0 \<le> (\<Sum>i\<leftarrow>xs. (p ! (i * 2))\<^sup>2 + (p ! (i * 2 + 1))\<^sup>2)" for p :: "real list"
  by (rule sum_list_nonneg) auto

lemma waveNorm_sum:
  "waveNorm opts p =
     sqrt ((\<Sum>i\<leftarrow>[0..<length p div 2]. (p ! (i * 2))\<^sup>2 + (p ! (i * 2 + 1))\<^sup>2) * (dx opts)\<^sup>2)"
  by (simp add: waveNorm_def foldl_accumulate power2_eq_square mult.assoc)

lemma normalize_total:
  assumes "waveNorm opts (psi wfn) \<noteq> 0"
  shows "totalProbability opts (psi (normalizeWavefunction opts wfn)) = 1"
proof -
  define p where "p = psi wfn"
  define m where "m = length p div 2"
  define S where "S = (\<Sum>i\<leftarrow>[0..<m]. (p ! (i * 2))\<^sup>2 + (p ! (i * 2 + 1))\<^sup>2)"
  define Q where "Q = S * (dx opts)\<^sup>2"
  define c where "c = 1 / waveNorm opts p"
  define p' where "p' = foldl (\<lambda>p i. p[i := p ! i * c]) p [0..<length p]"
  have norm: "waveNorm opts p = sqrt Q"
    by (simp add: waveNorm_sum Q_def S_def m_def)
  have "0 \<le> S" unfolding S_def by (rule sumSquares_nonneg)
  then have Q0: "0 \<le> Q" by (simp add: Q_def)
  with assms norm have Qpos: "0 < Q" by (cases "Q = 0") (simp_all add: p_def)
  then have pos: "waveNorm opts p > 0" using norm by simp
  have psi': "psi (normalizeWavefunction opts wfn) = p'"
    using pos by (simp add: normalizeWavefunction_def Let_def p_def p'_def c_def)
  have len: "length p' = length p" and nth: "\<And>i. i < length p \<Longrightarrow> p' ! i = p ! i * c"
    using scale_loop [of "length p" p c] by (simp_all add: p'_def)
  have "(\<Sum>i\<leftarrow>[0..<m]. (p' ! (i * 2))\<^sup>2 + (p' ! (i * 2 + 1))\<^sup>2)
          = (\<Sum>i\<leftarrow>[0..<m]. c\<^sup>2 * ((p ! (i * 2))\<^sup>2 + (p ! (i * 2 + 1))\<^sup>2))"
  proof (rule arg_cong [where f = sum_list], rule map_cong [OF refl])
    fix i assume "i \<in> set [0..<m]"
    then have "i * 2 + 1 < length p" by (simp add: m_def)
    then show "(p' ! (i * 2))\<^sup>2 + (p' ! (i * 2 + 1))\<^sup>2 = c\<^sup>2 * ((p ! (i * 2))\<^sup>2 + (p ! (i * 2 + 1))\<^sup>2)"
      by (simp add: nth power_mult_distrib algebra_simps)
  qed
  also have "\<dots> = c\<^sup>2 * S" by (simp add: S_def sum_list_const_mult)
  finally have "totalProbability opts p' = c\<^sup>2 * S * (dx opts)\<^sup>2"
    by (simp add: totalProbability_def len m_def)
  also have "\<dots> = c\<^sup>2 * Q" by (simp add: Q_def)
  also have "\<dots> = 1" using Qpos Q0 by (simp add: c_def norm power_divide)
  finally show ?thesis by (simp add: psi')
qed

text \<open>
  Claim C5: after every \<open>step()\<close>, over exact arithmetic: if the norm computed before the
  normalisation is not zero, the field after the step has \<open>\<Sigma>|\<psi>|\<^sup>2 \<sqdot> dx\<^sup>2 = 1\<close>, for any
  field, any transform object and any nonlinearity.
\<close>

theorem step_normalises:
  assumes "waveNorm opts (psi (evolveWavefunction opts fft wfn)) \<noteq> 0"
  shows "totalProbability opts (psi (stepWavefunction opts fft wfn)) = 1"
  unfolding stepWavefunction_def by (rule normalize_total [OF assms])

theorem step_normalises_witness:
  "waveNorm smallGrid (psi (evolveWavefunction smallGrid (fallbackFFT smallGrid) smallPacket)) \<noteq> 0
   \<and> totalProbability smallGrid (psi (stepWavefunction smallGrid (fallbackFFT smallGrid) smallPacket)) = 1"
proof -
  have h: "waveNorm smallGrid (psi (evolveWavefunction smallGrid (fallbackFFT smallGrid) smallPacket)) \<noteq> 0"
    by (simp add: waveNorm_def evolveWavefunction_def smallGrid_def smallPacket_def fallbackFFT_def
          positionHalfStep_def kineticStep_def Let_def power2_eq_square)
  show ?thesis using h step_normalises [OF h] by blast
qed

section \<open>Fourier fallback\<close>

text \<open>
  With the fallback installed, the two transform calls of a step change neither buffer:
  the momentum buffer is only rotated in place and the field only takes its two half steps.
\<close>

lemma fallback_transforms_discarded:
  "kSpace (evolveWavefunction opts (fallbackFFT opts) wfn) = kineticStep opts (kSpace wfn)"
  "psi (evolveWavefunction opts (fallbackFFT opts) wfn) =
     positionHalfStep opts (potential wfn) (positionHalfStep opts (potential wfn) (psi wfn))"
  by (simp_all add: evolveWavefunction_def fallbackFFT_def Let_def)

text \<open>
  Claim C10: the direct-summation fallback is correctness-preserving: its forward
  transform followed by its inverse transform returns the original field, so a step
  that uses the fallback gives the same result as one that uses the fast transform.

  The forward sum is divided by \<open>N\<close> and the inverse sum by nothing, while a round trip
  over an \<open>N \<times> N\<close> grid needs \<open>1 / N\<^sup>2\<close> in total. On the 2 by 2 grid the unit sample comes
  back doubled.
\<close>

theorem fallback_round_trip_scales:
  "inverseFourierTransform 2 (directFourierTransform 2 unitSample) = [2, 0, 0, 0, 0, 0, 0, 0]
   \<and> inverseFourierTransform 2 (directFourierTransform 2 unitSample) \<noteq> unitSample"
  by (simp add: directFourierTransform_def inverseFourierTransform_def unitSample_def upt_rec numeral_2_eq_2)

section \<open>The round trip of the fallback on every grid\<close>

text \<open>
  The loops of the two transforms are unfolded into the double sums they compute; over the
  complex numbers the sums are the discrete Fourier transform scaled by \<open>1 / N\<close> and the
  unscaled inverse sum, and the orthogonality of the roots of unity gives the round trip:
  the field comes back multiplied by \<open>N\<close>.
\<close>

text \<open>The accumulators \<open>sumRe\<close> and \<open>sumIm\<close> of the two inner loops.\<close>

lemma foldl_pair_accumulate:
  "foldl (\<lambda>(p, q) x. (p + f x, q + g x)) (p0, q0) xs
     = (p0 + sum_list (map f xs), q0 + sum_list (map g xs))" for p0 q0 :: real
  by (induction xs arbitrary: p0 q0) (simp_all add: add.assoc)

lemma foldl_pair_accumulate2:
  "foldl (\<lambda>(p, q) y. foldl (\<lambda>(p, q) x. (p + f y x, q + g y x)) (p, q) xs) (p0, q0) ys
     = (p0 + (\<Sum>y\<leftarrow>ys. \<Sum>x\<leftarrow>xs. f y x), q0 + (\<Sum>y\<leftarrow>ys. \<Sum>x\<leftarrow>xs. g y x))" for p0 q0 :: real
  by (induction ys arbitrary: p0 q0) (simp_all add: foldl_pair_accumulate add.assoc)

text \<open>Cell \<open>(ky, kx)\<close> of the grid lies before row \<open>m\<close> when \<open>ky < m\<close>.\<close>

lemma cell_below: "ky < m \<Longrightarrow> kx < N \<Longrightarrow> ky * N + kx < m * N" for ky kx m N :: nat
proof -
  assume a: "ky < m" "kx < N"
  then have "ky * N + kx < Suc ky * N" by simp
  also have "\<dots> \<le> m * N" using a(1) by (intro mult_le_mono1) simp
  finally show ?thesis .
qed

text \<open>
  The two outer loops write every cell once: afterwards cell \<open>(ky, kx)\<close> holds what was
  computed for it, and nothing beyond the rows written has changed.
\<close>

lemma write_row:
  fixes out :: "real list" and c :: nat and A B :: "nat \<Rightarrow> real"
  defines "R \<equiv> \<lambda>n. foldl (\<lambda>output kx. output[(c + kx) * 2 := A kx, (c + kx) * 2 + 1 := B kx]) out [0..<n]"
  shows "length (R n) = length out
    \<and> (\<forall>kx<n. (c + kx) * 2 + 1 < length out \<longrightarrow> R n ! ((c + kx) * 2) = A kx \<and> R n ! ((c + kx) * 2 + 1) = B kx)
    \<and> (\<forall>i. i < c * 2 \<or> (c + n) * 2 \<le> i \<longrightarrow> R n ! i = out ! i)"
proof (induction n)
  case 0
  show ?case by (simp add: R_def)
next
  case (Suc n)
  have step: "R (Suc n) = (R n)[(c + n) * 2 := A n, (c + n) * 2 + 1 := B n]"
    by (simp add: R_def)
  from Suc show ?case unfolding step
    by (auto simp add: nth_list_update less_Suc_eq)
qed

lemma write_grid:
  fixes out :: "real list" and N :: nat and A B :: "nat \<Rightarrow> nat \<Rightarrow> real"
  defines "G \<equiv> \<lambda>m. foldl (\<lambda>output ky.
                   foldl (\<lambda>output kx. output[(ky * N + kx) * 2 := A ky kx, (ky * N + kx) * 2 + 1 := B ky kx])
                     output [0..<N]) out [0..<m]"
  shows "length (G m) = length out
    \<and> (\<forall>ky<m. \<forall>kx<N. (ky * N + kx) * 2 + 1 < length out \<longrightarrow>
          G m ! ((ky * N + kx) * 2) = A ky kx \<and> G m ! ((ky * N + kx) * 2 + 1) = B ky kx)
    \<and> (\<forall>i. m * N * 2 \<le> i \<longrightarrow> G m ! i = out ! i)"
proof (induction m)
  case 0
  show ?case by (simp add: G_def)
next
  case (Suc m)
  have step: "G (Suc m) =
      foldl (\<lambda>output kx. output[(m * N + kx) * 2 := A m kx, (m * N + kx) * 2 + 1 := B m kx]) (G m) [0..<N]"
    by (simp add: G_def)
  note row = write_row [of "m * N" "A m" "B m" "G m" N, folded step]
  from Suc have len: "length (G m) = length out"
    and old: "\<And>ky kx. ky < m \<Longrightarrow> kx < N \<Longrightarrow> (ky * N + kx) * 2 + 1 < length out \<Longrightarrow>
                G m ! ((ky * N + kx) * 2) = A ky kx \<and> G m ! ((ky * N + kx) * 2 + 1) = B ky kx"
    and frame: "\<And>i. m * N * 2 \<le> i \<Longrightarrow> G m ! i = out ! i"
    by auto
  have 1: "length (G (Suc m)) = length out" using row len by simp
  have 2: "G (Suc m) ! ((ky * N + kx) * 2) = A ky kx \<and> G (Suc m) ! ((ky * N + kx) * 2 + 1) = B ky kx"
    if "ky < Suc m" "kx < N" "(ky * N + kx) * 2 + 1 < length out" for ky kx
  proof (cases "ky = m")
    case True
    with row that len show ?thesis by simp
  next
    case False
    with that have "ky < m" by simp
    from cell_below [OF this that(2)] have b: "(ky * N + kx) * 2 < m * N * 2" "(ky * N + kx) * 2 + 1 < m * N * 2"
      by simp_all
    with row have "G (Suc m) ! ((ky * N + kx) * 2) = G m ! ((ky * N + kx) * 2)"
      "G (Suc m) ! ((ky * N + kx) * 2 + 1) = G m ! ((ky * N + kx) * 2 + 1)" by simp_all
    with old [OF \<open>ky < m\<close> that(2,3)] show ?thesis by simp
  qed
  have 3: "G (Suc m) ! i = out ! i" if "Suc m * N * 2 \<le> i" for i
  proof -
    from that have "(m * N + N) * 2 \<le> i" "m * N * 2 \<le> i" by (simp_all add: algebra_simps)
    with row frame show ?thesis by simp
  qed
  from 1 2 3 show ?case by blast
qed

text \<open>The cells of the forward and of the inverse transform, as double sums.\<close>

lemma forward_cells:
  assumes "length data = 2 * N * N"
  shows "length (directFourierTransform N data) = length data"
    and "ky < N \<Longrightarrow> kx < N \<Longrightarrow>
      directFourierTransform N data ! ((ky * N + kx) * 2) =
        (\<Sum>y\<leftarrow>[0..<N]. \<Sum>x\<leftarrow>[0..<N].
            data ! ((y * N + x) * 2) * cos (- 2 * pi * (real (kx * x + ky * y) / real N))
          - data ! ((y * N + x) * 2 + 1) * sin (- 2 * pi * (real (kx * x + ky * y) / real N))) / real N"
    and "ky < N \<Longrightarrow> kx < N \<Longrightarrow>
      directFourierTransform N data ! ((ky * N + kx) * 2 + 1) =
        (\<Sum>y\<leftarrow>[0..<N]. \<Sum>x\<leftarrow>[0..<N].
            data ! ((y * N + x) * 2) * sin (- 2 * pi * (real (kx * x + ky * y) / real N))
          + data ! ((y * N + x) * 2 + 1) * cos (- 2 * pi * (real (kx * x + ky * y) / real N))) / real N"
proof -
  define A where "A = (\<lambda>ky kx. (\<Sum>y\<leftarrow>[0..<N]. \<Sum>x\<leftarrow>[0..<N].
            data ! ((y * N + x) * 2) * cos (- 2 * pi * (real (kx * x + ky * y) / real N))
          - data ! ((y * N + x) * 2 + 1) * sin (- 2 * pi * (real (kx * x + ky * y) / real N))) / real N)"
  define B where "B = (\<lambda>ky kx. (\<Sum>y\<leftarrow>[0..<N]. \<Sum>x\<leftarrow>[0..<N].
            data ! ((y * N + x) * 2) * sin (- 2 * pi * (real (kx * x + ky * y) / real N))
          + data ! ((y * N + x) * 2 + 1) * cos (- 2 * pi * (real (kx * x + ky * y) / real N))) / real N)"
  have eq: "directFourierTransform N data =
      foldl (\<lambda>output ky.
        foldl (\<lambda>output kx. output[(ky * N + kx) * 2 := A ky kx, (ky * N + kx) * 2 + 1 := B ky kx])
          output [0..<N]) (replicate (length data) 0) [0..<N]"
    unfolding directFourierTransform_def Let_def A_def B_def
    by (simp add: foldl_pair_accumulate2)
  note g = write_grid [of N A B "replicate (length data) 0" N, folded eq]
  show "length (directFourierTransform N data) = length data" using g by simp
  {
    assume k: "ky < N" "kx < N"
    from cell_below [OF k] have "(ky * N + kx) * 2 + 1 < length data" using assms by simp
    with g k have "directFourierTransform N data ! ((ky * N + kx) * 2) = A ky kx"
      "directFourierTransform N data ! ((ky * N + kx) * 2 + 1) = B ky kx" by simp_all
  }
  then show "ky < N \<Longrightarrow> kx < N \<Longrightarrow>
      directFourierTransform N data ! ((ky * N + kx) * 2) =
        (\<Sum>y\<leftarrow>[0..<N]. \<Sum>x\<leftarrow>[0..<N].
            data ! ((y * N + x) * 2) * cos (- 2 * pi * (real (kx * x + ky * y) / real N))
          - data ! ((y * N + x) * 2 + 1) * sin (- 2 * pi * (real (kx * x + ky * y) / real N))) / real N"
    and "ky < N \<Longrightarrow> kx < N \<Longrightarrow>
      directFourierTransform N data ! ((ky * N + kx) * 2 + 1) =
        (\<Sum>y\<leftarrow>[0..<N]. \<Sum>x\<leftarrow>[0..<N].
            data ! ((y * N + x) * 2) * sin (- 2 * pi * (real (kx * x + ky * y) / real N))
          + data ! ((y * N + x) * 2 + 1) * cos (- 2 * pi * (real (kx * x + ky * y) / real N))) / real N"
    by (simp_all add: A_def B_def)
qed

lemma inverse_cells:
  assumes "length data = 2 * N * N"
  shows "length (inverseFourierTransform N data) = length data"
    and "y < N \<Longrightarrow> x < N \<Longrightarrow>
      inverseFourierTransform N data ! ((y * N + x) * 2) =
        (\<Sum>ky\<leftarrow>[0..<N]. \<Sum>kx\<leftarrow>[0..<N].
            data ! ((ky * N + kx) * 2) * cos (2 * pi * (real (kx * x + ky * y) / real N))
          - data ! ((ky * N + kx) * 2 + 1) * sin (2 * pi * (real (kx * x + ky * y) / real N)))"
    and "y < N \<Longrightarrow> x < N \<Longrightarrow>
      inverseFourierTransform N data ! ((y * N + x) * 2 + 1) =
        (\<Sum>ky\<leftarrow>[0..<N]. \<Sum>kx\<leftarrow>[0..<N].
            data ! ((ky * N + kx) * 2) * sin (2 * pi * (real (kx * x + ky * y) / real N))
          + data ! ((ky * N + kx) * 2 + 1) * cos (2 * pi * (real (kx * x + ky * y) / real N)))"
proof -
  define A where "A = (\<lambda>y x. (\<Sum>ky\<leftarrow>[0..<N]. \<Sum>kx\<leftarrow>[0..<N].
            data ! ((ky * N + kx) * 2) * cos (2 * pi * (real (kx * x + ky * y) / real N))
          - data ! ((ky * N + kx) * 2 + 1) * sin (2 * pi * (real (kx * x + ky * y) / real N))))"
  define B where "B = (\<lambda>y x. (\<Sum>ky\<leftarrow>[0..<N]. \<Sum>kx\<leftarrow>[0..<N].
            data ! ((ky * N + kx) * 2) * sin (2 * pi * (real (kx * x + ky * y) / real N))
          + data ! ((ky * N + kx) * 2 + 1) * cos (2 * pi * (real (kx * x + ky * y) / real N))))"
  have eq: "inverseFourierTransform N data =
      foldl (\<lambda>output y.
        foldl (\<lambda>output x. output[(y * N + x) * 2 := A y x, (y * N + x) * 2 + 1 := B y x])
          output [0..<N]) (replicate (length data) 0) [0..<N]"
    unfolding inverseFourierTransform_def Let_def A_def B_def
    by (simp add: foldl_pair_accumulate2)
  note g = write_grid [of N A B "replicate (length data) 0" N, folded eq]
  show "length (inverseFourierTransform N data) = length data" using g by simp
  {
    assume k: "y < N" "x < N"
    from cell_below [OF k] have "(y * N + x) * 2 + 1 < length data" using assms by simp
    with g k have "inverseFourierTransform N data ! ((y * N + x) * 2) = A y x"
      "inverseFourierTransform N data ! ((y * N + x) * 2 + 1) = B y x" by simp_all
  }
  then show "y < N \<Longrightarrow> x < N \<Longrightarrow>
      inverseFourierTransform N data ! ((y * N + x) * 2) =
        (\<Sum>ky\<leftarrow>[0..<N]. \<Sum>kx\<leftarrow>[0..<N].
            data ! ((ky * N + kx) * 2) * cos (2 * pi * (real (kx * x + ky * y) / real N))
          - data ! ((ky * N + kx) * 2 + 1) * sin (2 * pi * (real (kx * x + ky * y) / real N)))"
    and "y < N \<Longrightarrow> x < N \<Longrightarrow>
      inverseFourierTransform N data ! ((y * N + x) * 2 + 1) =
        (\<Sum>ky\<leftarrow>[0..<N]. \<Sum>kx\<leftarrow>[0..<N].
            data ! ((ky * N + kx) * 2) * sin (2 * pi * (real (kx * x + ky * y) / real N))
          + data ! ((ky * N + kx) * 2 + 1) * cos (2 * pi * (real (kx * x + ky * y) / real N)))"
    by (simp_all add: A_def B_def)
qed

text \<open>The sum of the \<open>N\<close>-th roots of unity along one axis.\<close>

lemma root_sum:
  assumes "x < N" and "x' < N"
  shows "(\<Sum>k<N. cis (real k * (2 * pi * (real x - real x') / real N)))
           = (if x = x' then of_nat N else 0)"
proof (cases "x = x'")
  case True
  then show ?thesis by simp
next
  case False
  define t where "t = 2 * pi * (real x - real x') / real N"
  define w where "w = cis t"
  have N: "0 < N" using assms by simp
  have pw: "cis (real k * t) = w ^ k" for k
    by (simp add: w_def DeMoivre)
  have "w ^ N = cis (2 * pi * (real x - real x'))"
    using N by (simp add: pw [symmetric] t_def)
  also have "\<dots> = 1"
    by (rule cis_multiple_2pi) simp
  finally have wN: "w ^ N = 1" .
  have w1: "w \<noteq> 1"
  proof
    assume "w = 1"
    then have "cos t = 1" by (simp add: w_def cis.ctr complex_eq_iff)
    then obtain n :: int where n: "t = real_of_int n * 2 * pi"
      by (auto simp add: cos_one_2pi_int)
    then have "(2 * pi) * ((real x - real x') / real N) = (2 * pi) * real_of_int n"
      by (simp add: t_def)
    then have "(real x - real x') / real N = real_of_int n"
      using pi_neq_zero by (simp only: mult_cancel_left) simp
    then have "real x - real x' = real_of_int n * real N"
      using N by (simp add: field_simps)
    then have "int x - int x' = n * int N"
      by (metis (mono_tags, opaque_lifting) of_int_diff of_int_eq_iff of_int_mult of_int_of_nat_eq)
    moreover have "\<bar>int x - int x'\<bar> < int N" "int x - int x' \<noteq> 0"
      using assms False by auto
    ultimately have "\<bar>n * int N\<bar> < int N" "n \<noteq> 0" by auto
    then have "\<bar>n\<bar> * int N < 1 * int N" by (simp add: abs_mult)
    then have "\<bar>n\<bar> < 1" using N by (simp only: mult_less_cancel_right)
    with \<open>n \<noteq> 0\<close> show False by simp
  qed
  have "(\<Sum>k<N. cis (real k * t)) = (\<Sum>k<N. w ^ k)" by (simp add: pw)
  also have "\<dots> = (w ^ N - 1) / (w - 1)" using w1 by (rule geometric_sum)
  also have "\<dots> = 0" by (simp add: wN)
  finally show ?thesis using False by (simp add: t_def)
qed

text \<open>The inversion identity over the complex numbers.\<close>

lemma sum_swap4:
  "(\<Sum>a\<in>A. \<Sum>b\<in>B. \<Sum>c\<in>C. \<Sum>d\<in>D. f a b c d) = (\<Sum>c\<in>C. \<Sum>d\<in>D. \<Sum>a\<in>A. \<Sum>b\<in>B. f a b c d)"
  for f :: "'a \<Rightarrow> 'b \<Rightarrow> 'c \<Rightarrow> 'd \<Rightarrow> complex"
proof -
  have "(\<Sum>a\<in>A. \<Sum>b\<in>B. \<Sum>c\<in>C. \<Sum>d\<in>D. f a b c d) = (\<Sum>a\<in>A. \<Sum>c\<in>C. \<Sum>b\<in>B. \<Sum>d\<in>D. f a b c d)"
    by (intro sum.cong refl) (rule sum.swap)
  also have "\<dots> = (\<Sum>c\<in>C. \<Sum>a\<in>A. \<Sum>b\<in>B. \<Sum>d\<in>D. f a b c d)"
    by (rule sum.swap)
  also have "\<dots> = (\<Sum>c\<in>C. \<Sum>a\<in>A. \<Sum>d\<in>D. \<Sum>b\<in>B. f a b c d)"
    by (intro sum.cong refl) (rule sum.swap)
  also have "\<dots> = (\<Sum>c\<in>C. \<Sum>d\<in>D. \<Sum>a\<in>A. \<Sum>b\<in>B. f a b c d)"
    by (intro sum.cong refl) (rule sum.swap)
  finally show ?thesis .
qed

lemma angle_split:
  "cis (- 2 * pi * (real (kx * x' + ky * y') / real N)) * cis (2 * pi * (real (kx * x + ky * y) / real N))
     = cis (real kx * (2 * pi * (real x - real x') / real N))
       * cis (real ky * (2 * pi * (real y - real y') / real N))"
proof -
  have "- 2 * pi * (real (kx * x' + ky * y') / real N) + 2 * pi * (real (kx * x + ky * y) / real N)
          = real kx * (2 * pi * (real x - real x') / real N) + real ky * (2 * pi * (real y - real y') / real N)"
    by (simp add: divide_inverse algebra_simps)
  then show ?thesis by (simp only: cis_mult)
qed

lemma fourier_core:
  fixes z :: "nat \<Rightarrow> nat \<Rightarrow> complex"
  assumes "y < N" and "x < N"
  shows "(\<Sum>ky<N. \<Sum>kx<N.
            ((\<Sum>y'<N. \<Sum>x'<N. z y' x' * cis (- 2 * pi * (real (kx * x' + ky * y') / real N))) / of_nat N)
            * cis (2 * pi * (real (kx * x + ky * y) / real N)))
         = of_nat N * z y x"
proof -
  define a where "a = (\<lambda>x' kx. cis (real kx * (2 * pi * (real x - real x') / real N)))"
  define b where "b = (\<lambda>y' ky. cis (real ky * (2 * pi * (real y - real y') / real N)))"
  have N: "0 < N" using assms by simp
  have cell: "z y' x' * cis (- 2 * pi * (real (kx * x' + ky * y') / real N)) / of_nat N
                * cis (2 * pi * (real (kx * x + ky * y) / real N))
              = (z y' x' / of_nat N) * (a x' kx * b y' ky)" for ky kx y' x'
  proof -
    have "z y' x' * cis (- 2 * pi * (real (kx * x' + ky * y') / real N)) / of_nat N
                * cis (2 * pi * (real (kx * x + ky * y) / real N))
          = (z y' x' / of_nat N) * (cis (- 2 * pi * (real (kx * x' + ky * y') / real N))
                * cis (2 * pi * (real (kx * x + ky * y) / real N)))"
      by (simp only: times_divide_eq_left times_divide_eq_right mult.assoc)
    then show ?thesis by (simp only: angle_split a_def b_def)
  qed
  have "(\<Sum>ky<N. \<Sum>kx<N.
            ((\<Sum>y'<N. \<Sum>x'<N. z y' x' * cis (- 2 * pi * (real (kx * x' + ky * y') / real N))) / of_nat N)
            * cis (2 * pi * (real (kx * x + ky * y) / real N)))
      = (\<Sum>ky<N. \<Sum>kx<N. \<Sum>y'<N. \<Sum>x'<N.
            z y' x' * cis (- 2 * pi * (real (kx * x' + ky * y') / real N)) / of_nat N
              * cis (2 * pi * (real (kx * x + ky * y) / real N)))"
    by (simp only: sum_divide_distrib sum_distrib_right)
  also have "\<dots> = (\<Sum>ky<N. \<Sum>kx<N. \<Sum>y'<N. \<Sum>x'<N. (z y' x' / of_nat N) * (a x' kx * b y' ky))"
    by (simp only: cell)
  also have "\<dots> = (\<Sum>y'<N. \<Sum>x'<N. \<Sum>ky<N. \<Sum>kx<N. (z y' x' / of_nat N) * (a x' kx * b y' ky))"
    by (rule sum_swap4)
  also have "\<dots> = (\<Sum>y'<N. \<Sum>x'<N. (z y' x' / of_nat N) * ((\<Sum>kx<N. a x' kx) * (\<Sum>ky<N. b y' ky)))"
  proof (intro sum.cong refl)
    fix y' x'
    have "(\<Sum>ky<N. \<Sum>kx<N. (z y' x' / of_nat N) * (a x' kx * b y' ky))
            = (z y' x' / of_nat N) * (\<Sum>ky<N. \<Sum>kx<N. a x' kx * b y' ky)"
      by (simp add: sum_distrib_left)
    also have "(\<Sum>ky<N. \<Sum>kx<N. a x' kx * b y' ky) = (\<Sum>kx<N. \<Sum>ky<N. a x' kx * b y' ky)"
      by (rule sum.swap)
    also have "\<dots> = (\<Sum>kx<N. a x' kx) * (\<Sum>ky<N. b y' ky)"
      by (simp add: sum_product)
    finally show "(\<Sum>ky<N. \<Sum>kx<N. (z y' x' / of_nat N) * (a x' kx * b y' ky))
            = (z y' x' / of_nat N) * ((\<Sum>kx<N. a x' kx) * (\<Sum>ky<N. b y' ky))" .
  qed
  also have "\<dots> = (\<Sum>y'<N. \<Sum>x'<N. (z y' x' / of_nat N)
                        * ((if x = x' then of_nat N else 0) * (if y = y' then of_nat N else 0)))"
    by (intro sum.cong refl)
       (simp only: a_def b_def root_sum [OF assms(2)] root_sum [OF assms(1)] lessThan_iff)
  also have "\<dots> = (\<Sum>y'<N. \<Sum>x'<N. if y = y' then (if x = x' then of_nat N * z y x else 0) else 0)"
  proof (intro sum.cong refl)
    fix y' x'
    show "(z y' x' / of_nat N) * ((if x = x' then of_nat N else 0) * (if y = y' then of_nat N else 0))
            = (if y = y' then (if x = x' then of_nat N * z y x else 0) else 0)"
      using N by auto
  qed
  also have "\<dots> = (\<Sum>y'<N. if y = y' then (\<Sum>x'<N. if x = x' then of_nat N * z y x else 0) else 0)"
    by (intro sum.cong refl) simp
  also have "\<dots> = of_nat N * z y x"
    using assms by (simp only: sum.delta' finite_lessThan lessThan_iff if_True)
  finally show ?thesis .
qed

lemma sum_list_upt: "(\<Sum>i\<leftarrow>[0..<N]. f i) = (\<Sum>i<N. f i)" for f :: "nat \<Rightarrow> real"
  by (simp add: interv_sum_list_conv_sum_set_nat atLeast0LessThan)

text \<open>
  For every grid size and every field of the right length, the inverse fallback applied to
  the forward fallback returns the field multiplied by \<open>N\<close>: the original only for \<open>N = 1\<close>.
\<close>

lemma fallback_round_trip_general:
  assumes "length data = 2 * N * N"
  shows "inverseFourierTransform N (directFourierTransform N data) = map (\<lambda>v. real N * v) data"
proof -
  define fwd where "fwd = directFourierTransform N data"
  define inv where "inv = inverseFourierTransform N fwd"
  define z where "z = (\<lambda>y x. Complex (data ! ((y * N + x) * 2)) (data ! ((y * N + x) * 2 + 1)))"
  define F where "F = (\<lambda>ky kx. Complex (fwd ! ((ky * N + kx) * 2)) (fwd ! ((ky * N + kx) * 2 + 1)))"
  have lenf: "length fwd = 2 * N * N"
    using forward_cells(1) [OF assms] assms by (simp add: fwd_def)
  have leni: "length inv = 2 * N * N"
    using inverse_cells(1) [OF lenf] lenf by (simp add: inv_def)
  have Fc: "F ky kx = (\<Sum>y'<N. \<Sum>x'<N. z y' x' * cis (- 2 * pi * (real (kx * x' + ky * y') / real N))) / of_nat N"
    if "ky < N" "kx < N" for ky kx
  proof (rule complex_eqI)
    have "Re (F ky kx) = directFourierTransform N data ! ((ky * N + kx) * 2)"
      by (simp add: F_def fwd_def)
    also have "\<dots> = (\<Sum>y\<leftarrow>[0..<N]. \<Sum>x\<leftarrow>[0..<N].
            data ! ((y * N + x) * 2) * cos (- 2 * pi * (real (kx * x + ky * y) / real N))
          - data ! ((y * N + x) * 2 + 1) * sin (- 2 * pi * (real (kx * x + ky * y) / real N))) / real N"
      by (rule forward_cells(2) [OF assms that])
    also have "\<dots> = (\<Sum>y<N. \<Sum>x<N.
            data ! ((y * N + x) * 2) * cos (- 2 * pi * (real (kx * x + ky * y) / real N))
          - data ! ((y * N + x) * 2 + 1) * sin (- 2 * pi * (real (kx * x + ky * y) / real N))) / real N"
      by (simp only: sum_list_upt)
    also have "\<dots> = Re ((\<Sum>y'<N. \<Sum>x'<N. z y' x' * cis (- 2 * pi * (real (kx * x' + ky * y') / real N))) / of_nat N)"
      by (simp add: z_def)
    finally show "Re (F ky kx) = Re ((\<Sum>y'<N. \<Sum>x'<N. z y' x' * cis (- 2 * pi * (real (kx * x' + ky * y') / real N))) / of_nat N)" .
  next
    have "Im (F ky kx) = directFourierTransform N data ! ((ky * N + kx) * 2 + 1)"
      by (simp add: F_def fwd_def)
    also have "\<dots> = (\<Sum>y\<leftarrow>[0..<N]. \<Sum>x\<leftarrow>[0..<N].
            data ! ((y * N + x) * 2) * sin (- 2 * pi * (real (kx * x + ky * y) / real N))
          + data ! ((y * N + x) * 2 + 1) * cos (- 2 * pi * (real (kx * x + ky * y) / real N))) / real N"
      by (rule forward_cells(3) [OF assms that])
    also have "\<dots> = (\<Sum>y<N. \<Sum>x<N.
            data ! ((y * N + x) * 2) * sin (- 2 * pi * (real (kx * x + ky * y) / real N))
          + data ! ((y * N + x) * 2 + 1) * cos (- 2 * pi * (real (kx * x + ky * y) / real N))) / real N"
      by (simp only: sum_list_upt)
    also have "\<dots> = Im ((\<Sum>y'<N. \<Sum>x'<N. z y' x' * cis (- 2 * pi * (real (kx * x' + ky * y') / real N))) / of_nat N)"
      by (simp add: z_def)
    finally show "Im (F ky kx) = Im ((\<Sum>y'<N. \<Sum>x'<N. z y' x' * cis (- 2 * pi * (real (kx * x' + ky * y') / real N))) / of_nat N)" .
  qed
  have Ic: "Complex (inv ! ((y * N + x) * 2)) (inv ! ((y * N + x) * 2 + 1))
              = (\<Sum>ky<N. \<Sum>kx<N. F ky kx * cis (2 * pi * (real (kx * x + ky * y) / real N)))"
    if "y < N" "x < N" for y x
  proof (rule complex_eqI)
    have "Re (Complex (inv ! ((y * N + x) * 2)) (inv ! ((y * N + x) * 2 + 1)))
            = inverseFourierTransform N fwd ! ((y * N + x) * 2)"
      by (simp add: inv_def)
    also have "\<dots> = (\<Sum>ky\<leftarrow>[0..<N]. \<Sum>kx\<leftarrow>[0..<N].
            fwd ! ((ky * N + kx) * 2) * cos (2 * pi * (real (kx * x + ky * y) / real N))
          - fwd ! ((ky * N + kx) * 2 + 1) * sin (2 * pi * (real (kx * x + ky * y) / real N)))"
      by (rule inverse_cells(2) [OF lenf that])
    also have "\<dots> = (\<Sum>ky<N. \<Sum>kx<N.
            fwd ! ((ky * N + kx) * 2) * cos (2 * pi * (real (kx * x + ky * y) / real N))
          - fwd ! ((ky * N + kx) * 2 + 1) * sin (2 * pi * (real (kx * x + ky * y) / real N)))"
      by (simp only: sum_list_upt)
    also have "\<dots> = Re (\<Sum>ky<N. \<Sum>kx<N. F ky kx * cis (2 * pi * (real (kx * x + ky * y) / real N)))"
      by (simp add: F_def)
    finally show "Re (Complex (inv ! ((y * N + x) * 2)) (inv ! ((y * N + x) * 2 + 1)))
            = Re (\<Sum>ky<N. \<Sum>kx<N. F ky kx * cis (2 * pi * (real (kx * x + ky * y) / real N)))" .
  next
    have "Im (Complex (inv ! ((y * N + x) * 2)) (inv ! ((y * N + x) * 2 + 1)))
            = inverseFourierTransform N fwd ! ((y * N + x) * 2 + 1)"
      by (simp add: inv_def)
    also have "\<dots> = (\<Sum>ky\<leftarrow>[0..<N]. \<Sum>kx\<leftarrow>[0..<N].
            fwd ! ((ky * N + kx) * 2) * sin (2 * pi * (real (kx * x + ky * y) / real N))
          + fwd ! ((ky * N + kx) * 2 + 1) * cos (2 * pi * (real (kx * x + ky * y) / real N)))"
      by (rule inverse_cells(3) [OF lenf that])
    also have "\<dots> = (\<Sum>ky<N. \<Sum>kx<N.
            fwd ! ((ky * N + kx) * 2) * sin (2 * pi * (real (kx * x + ky * y) / real N))
          + fwd ! ((ky * N + kx) * 2 + 1) * cos (2 * pi * (real (kx * x + ky * y) / real N)))"
      by (simp only: sum_list_upt)
    also have "\<dots> = Im (\<Sum>ky<N. \<Sum>kx<N. F ky kx * cis (2 * pi * (real (kx * x + ky * y) / real N)))"
      by (simp add: F_def)
    finally show "Im (Complex (inv ! ((y * N + x) * 2)) (inv ! ((y * N + x) * 2 + 1)))
            = Im (\<Sum>ky<N. \<Sum>kx<N. F ky kx * cis (2 * pi * (real (kx * x + ky * y) / real N)))" .
  qed
  have cell: "inv ! ((y * N + x) * 2) = real N * data ! ((y * N + x) * 2)
            \<and> inv ! ((y * N + x) * 2 + 1) = real N * data ! ((y * N + x) * 2 + 1)"
    if "y < N" "x < N" for y x
  proof -
    have "Complex (inv ! ((y * N + x) * 2)) (inv ! ((y * N + x) * 2 + 1))
            = (\<Sum>ky<N. \<Sum>kx<N. F ky kx * cis (2 * pi * (real (kx * x + ky * y) / real N)))"
      by (rule Ic [OF that])
    also have "\<dots> = (\<Sum>ky<N. \<Sum>kx<N.
            ((\<Sum>y'<N. \<Sum>x'<N. z y' x' * cis (- 2 * pi * (real (kx * x' + ky * y') / real N))) / of_nat N)
            * cis (2 * pi * (real (kx * x + ky * y) / real N)))"
      by (intro sum.cong refl) (simp add: Fc)
    also have "\<dots> = of_nat N * z y x"
      by (rule fourier_core [OF that])
    finally have "Complex (inv ! ((y * N + x) * 2)) (inv ! ((y * N + x) * 2 + 1)) = of_nat N * z y x" .
    then show ?thesis
      by (simp add: complex_eq_iff z_def)
  qed
  show ?thesis
  proof (rule nth_equalityI)
    show "length (inverseFourierTransform N (directFourierTransform N data)) = length (map (\<lambda>v. real N * v) data)"
      using leni assms by (simp add: inv_def fwd_def)
  next
    fix j assume "j < length (inverseFourierTransform N (directFourierTransform N data))"
    then have j: "j < 2 * N * N" using leni by (simp add: inv_def fwd_def)
    define c where "c = j div 2"
    define y where "y = c div N"
    define x where "x = c mod N"
    have N: "0 < N" using j by (cases N) simp_all
    have c: "c < N * N" using j by (simp add: c_def) 
    then have y: "y < N" by (simp add: y_def less_mult_imp_div_less)
    have x: "x < N" using N by (simp add: x_def)
    have cyx: "y * N + x = c" by (simp add: y_def x_def)
    have "j = c * 2 \<or> j = c * 2 + 1" by (simp add: c_def) arith
    with cell [OF y x] j assms show "inverseFourierTransform N (directFourierTransform N data) ! j = map (\<lambda>v. real N * v) data ! j"
      by (auto simp add: cyx inv_def fwd_def)
  qed
qed

end
